theory Spec2Isabelle
  imports Main "HOL-Library.AList"
begin

section \<open>Values, documents and the external library\<close>

text \<open>
  A Python \<open>str\<close> is the sequence of its code points, so that slicing (\<open>s[:80]\<close>) counts
  what Python counts. The literals of \<open>main.py\<close> that are plain ASCII are written
  \<open>ascii ''...''\<close>; the few that start with a pictograph spell its code points out.
\<close>

type_synonym pystr = "nat list"

definition ascii :: "string \<Rightarrow> pystr" where
  "ascii s = map of_char s"

text \<open>
  The values that occur in the documents and the JSON responses of the service:
  \<open>None\<close>, strings, booleans, the store's object identifiers, timestamps, lists and
  nested dictionaries. A dictionary is an association list read by its first entry for a
  key (\<open>map_of\<close>) and written with \<open>AList.update\<close>, which replaces in place or appends,
  as a Python \<open>dict\<close> does.
\<close>

datatype val =
    VNone
  | VStr pystr
  | VBool bool
  | VOid nat
  | VTime nat
  | VList "val list"
  | VDict "(pystr \<times> val) list"

type_synonym doc = "(pystr \<times> val) list"

text \<open>\<open>d.get(k)\<close> and \<open>d.get(k, default)\<close>: the default only replaces a missing key.\<close>

definition get :: "doc \<Rightarrow> pystr \<Rightarrow> val" where
  "get d k = (case map_of d k of None \<Rightarrow> VNone | Some v \<Rightarrow> v)"

definition get_default :: "doc \<Rightarrow> pystr \<Rightarrow> val \<Rightarrow> val" where
  "get_default d k dflt = (case map_of d k of None \<Rightarrow> dflt | Some v \<Rightarrow> v)"

text \<open>
  Truth value of an \<open>Optional[dict]\<close> (\<open>if existing:\<close>, \<open>if not user\<close>, \<open>if not doc\<close>):
  \<open>None\<close> and the empty dictionary are false.
\<close>

definition truthy :: "doc option \<Rightarrow> bool" where
  "truthy x = (case x of None \<Rightarrow> False | Some d \<Rightarrow> d \<noteq> [])"

text \<open>
  What a handler raises: an \<open>HTTPException(status_code, detail)\<close>, the
  \<open>UnicodeEncodeError\<close> of \<open>str.encode\<close>, or the adapter's failure when there is no live
  connection. The framework answers the last two with a server error (500).
\<close>

datatype error = HTTPException nat pystr | UnicodeEncodeError | StorageUnavailable

text \<open>
  \<open>text.encode("utf-8")\<close>: the bytes of each code point, one to four of them. The
  surrogates U+D800 to U+DFFF have no encoding, and a \<open>str\<close> that holds one makes
  \<open>encode\<close> raise. A \<open>str\<close> holds no code point above U+10FFFF.
\<close>

definition encode_char :: "nat \<Rightarrow> nat list option" where
  "encode_char c =
     (if c < 0x80 then Some [c]
      else if c < 0x800 then Some [0xC0 + c div 64, 0x80 + c mod 64]
      else if 0xD800 \<le> c \<and> c \<le> 0xDFFF then None
      else if c < 0x10000
        then Some [0xE0 + c div 4096, 0x80 + c div 64 mod 64, 0x80 + c mod 64]
      else Some [0xF0 + c div 262144, 0x80 + c div 4096 mod 64, 0x80 + c div 64 mod 64,
                 0x80 + c mod 64])"

fun encode_utf8 :: "pystr \<Rightarrow> error + nat list" where
  "encode_utf8 [] = Inr []"
| "encode_utf8 (c # cs) =
     (case encode_char c of
        None \<Rightarrow> Inl UnicodeEncodeError
      | Some bs \<Rightarrow>
          (case encode_utf8 cs of
             Inl e \<Rightarrow> Inl e
           | Inr rest \<Rightarrow> Inr (bs @ rest)))"

text \<open>
  Library functions the source calls and that are not code of the repository are
  parameters of the model: \<open>hexdigest\<close> is \<open>hashlib.sha256(bytes).hexdigest()\<close>, from
  bytes to the digest's hexadecimal string, and \<open>str\<close> is Python's builtin \<open>str\<close> on the
  values above.
\<close>

record pylib =
  hexdigest :: "nat list \<Rightarrow> pystr"
  str :: "val \<Rightarrow> pystr"

text \<open>\<open>sha256\<close> of \<open>main.py\<close>: it raises when the text cannot be encoded.\<close>

definition sha256 :: "pylib \<Rightarrow> pystr \<Rightarrow> error + pystr" where
  "sha256 L text =
     (case encode_utf8 text of
        Inl e \<Rightarrow> Inl e
      | Inr bytes \<Rightarrow> Inr (hexdigest L bytes))"

section \<open>The document store adapter\<close>

text \<open>
  The module \<open>database\<close> (\<open>db\<close>, \<open>create_document\<close>, \<open>get_documents\<close>) is imported by
  \<open>main.py\<close> and is not among the sources. The global \<open>db\<close> is \<open>None\<close> or a handle on
  a database: named collections, each a sequence of documents in insertion order, and
  the supply of fresh identifiers. A live handle counts as true in \<open>if db\<close>.
\<close>

record database =
  collections :: "pystr \<Rightarrow> doc list"
  next_oid :: nat

text \<open>An equality filter: every entry of the filter is a field of the document.\<close>

definition matches :: "doc \<Rightarrow> doc \<Rightarrow> bool" where
  "matches flt d = list_all (\<lambda>(k, v). map_of d k = Some v) flt"

text \<open>
  Modelled from the spec: the handle's direct lookup \<open>db[c].find_one(filter)\<close>, missing
  with the module \<open>database\<close>; "direct lookup by arbitrary filter (e.g., find-one by
  unique field)", with equality filters: the first matching document, or \<open>None\<close>.
\<close>

definition find_one :: "database \<Rightarrow> pystr \<Rightarrow> doc \<Rightarrow> doc option" where
  "find_one s c flt = List.find (matches flt) (collections s c)"

text \<open>
  Modelled from the spec: the handle's \<open>db[c].count_documents(filter)\<close>, missing with
  the module \<open>database\<close>: the number of matching documents.
\<close>

definition count_documents :: "database \<Rightarrow> pystr \<Rightarrow> doc \<Rightarrow> nat" where
  "count_documents s c flt = length (filter (matches flt) (collections s c))"

text \<open>
  Modelled from the spec: \<open>create_document(collection, fields) -> id\<close>, missing with the
  module \<open>database\<close>: "inserts a new document, stamping creation metadata (e.g.,
  timestamp), and returns a generated unique identifier ... Fails with
  StorageUnavailable if no live connection". The identifier is stored under \<open>_id\<close>,
  where \<open>login\<close> reads it, and returned as a string, as the handlers put it into their
  JSON response. \<open>stamp now oid data\<close> is the document as stored: the fields, the
  two timestamps of the clock reading \<open>now\<close>, and the identifier.
\<close>

definition stamp :: "nat \<Rightarrow> nat \<Rightarrow> doc \<Rightarrow> doc" where
  "stamp now oid data =
     AList.update (ascii ''_id'') (VOid oid)
       (AList.update (ascii ''updated_at'') (VTime now)
          (AList.update (ascii ''created_at'') (VTime now) data))"

definition create_document ::
  "pylib \<Rightarrow> nat \<Rightarrow> database option \<Rightarrow> pystr \<Rightarrow> doc \<Rightarrow> (error + pystr) \<times> database option" where
  "create_document L now db c data =
     (case db of
        None \<Rightarrow> (Inl StorageUnavailable, None)
      | Some s \<Rightarrow>
          (let oid = next_oid s;
               stored = stamp now oid data
           in (Inr (str L (VOid oid)),
               Some (s\<lparr>collections := (collections s)(c := collections s c @ [stored]),
                       next_oid := Suc oid\<rparr>))))"

text \<open>
  Modelled from the spec: \<open>get_documents(collection, filter, limit)\<close>, missing with the
  module \<open>database\<close>: "returns up to \<open>limit\<close> matching documents in store-defined order
  ... Empty filter matches all"; without a connection "all operations are no-ops/return
  empty". The spec gives the limit no lower bound and does not say what a limit of zero
  or below selects. The collections are MongoDB collections (\<open>schemas.py\<close>), and the
  limit is the limit of the store's cursor: a positive limit bounds the result, the limit
  0 is no limit, and a negative limit \<open>-n\<close> returns \<open>n\<close> documents.
\<close>

definition cursor_limit :: "int \<Rightarrow> doc list \<Rightarrow> doc list" where
  "cursor_limit limit docs = (if limit = 0 then docs else take (nat \<bar>limit\<bar>) docs)"

definition get_documents :: "database option \<Rightarrow> pystr \<Rightarrow> doc \<Rightarrow> int \<Rightarrow> doc list" where
  "get_documents db c flt limit =
     (case db of
        None \<Rightarrow> []
      | Some s \<Rightarrow> cursor_limit limit (filter (matches flt) (collections s c)))"

section \<open>Authentication\<close>

record RegisterRequest =
  reg_name :: pystr
  reg_email :: pystr
  reg_password :: pystr

record LoginRequest =
  login_email :: pystr
  login_password :: pystr

text \<open>
  \<open>register\<close>: the handler returns its JSON object or raises, and leaves the store as
  \<open>create_document\<close> left it. The dictionary \<open>user_doc\<close> is built before the insertion,
  so an exception of \<open>sha256\<close> leaves the handler before \<open>create_document\<close> is called.
\<close>

definition register ::
  "pylib \<Rightarrow> nat \<Rightarrow> database option \<Rightarrow> RegisterRequest \<Rightarrow> (error + doc) \<times> database option" where
  "register L now db payload =
     (let existing =
            (case db of
               Some s \<Rightarrow> find_one s (ascii ''user'') [(ascii ''email'', VStr (reg_email payload))]
             | None \<Rightarrow> None)
      in if truthy existing
         then (Inl (HTTPException 400 (ascii ''Email already registered'')), db)
         else
           (case sha256 L (reg_password payload) of
              Inl e \<Rightarrow> (Inl e, db)
            | Inr digest \<Rightarrow>
                (let user_doc =
                       [(ascii ''name'', VStr (reg_name payload)),
                        (ascii ''email'', VStr (reg_email payload)),
                        (ascii ''password_hash'', VStr digest),
                        (ascii ''plan'', VStr (ascii ''free'')),
                        (ascii ''is_active'', VBool True)]
                 in case create_document L now db (ascii ''user'') user_doc of
                      (Inl e, db') \<Rightarrow> (Inl e, db')
                    | (Inr user_id, db') \<Rightarrow>
                        (Inr [(ascii ''id'', VStr user_id),
                              (ascii ''name'', VStr (reg_name payload)),
                              (ascii ''email'', VStr (reg_email payload)),
                              (ascii ''plan'', VStr (ascii ''free''))],
                         db'))))"

text \<open>
  \<open>login\<close>: \<open>not user or ...\<close> does not read the user when there is none, so the
  model splits on the lookup first; \<open>sha256\<close> is only called for a user that was found,
  and its exception leaves the handler.
\<close>

definition login :: "pylib \<Rightarrow> database option \<Rightarrow> LoginRequest \<Rightarrow> error + doc" where
  "login L db payload =
     (let user =
            (case db of
               Some s \<Rightarrow> find_one s (ascii ''user'') [(ascii ''email'', VStr (login_email payload))]
             | None \<Rightarrow> None)
      in case user of
           None \<Rightarrow> Inl (HTTPException 401 (ascii ''Invalid credentials''))
         | Some u \<Rightarrow>
             if \<not> truthy user
             then Inl (HTTPException 401 (ascii ''Invalid credentials''))
             else
               (case sha256 L (login_password payload) of
                  Inl e \<Rightarrow> Inl e
                | Inr digest \<Rightarrow>
                    if get u (ascii ''password_hash'') \<noteq> VStr digest
                    then Inl (HTTPException 401 (ascii ''Invalid credentials''))
                    else Inr [(ascii ''id'', VStr (str L (get u (ascii ''_id'')))),
                              (ascii ''name'', get u (ascii ''name'')),
                              (ascii ''email'', get u (ascii ''email'')),
                              (ascii ''plan'',
                               get_default u (ascii ''plan'') (VStr (ascii ''free'')))]))"

section \<open>Blog\<close>

text \<open>
  The three sample posts of \<open>ensure_sample_blog_posts\<close>. Each \<open>published_at\<close> is its own
  reading of the clock (\<open>datetime.utcnow()\<close>): \<open>clk i\<close> is the \<open>i\<close>-th reading during the
  request.
\<close>

definition samples :: "(nat \<Rightarrow> nat) \<Rightarrow> doc list" where
  "samples clk =
     [[(ascii ''title'', VStr (ascii ''Designing With Pastels: A Gentle UI Aesthetic'')),
       (ascii ''slug'', VStr (ascii ''designing-with-pastels'')),
       (ascii ''excerpt'', VStr (ascii
          ''How soft color palettes can increase trust and readability in fintech apps.'')),
       (ascii ''content'', VStr (ascii
          ''<p>Pastels bring calm to complex financial interfaces...</p>'')),
       (ascii ''author'', VStr (ascii ''Team'')),
       (ascii ''tags'', VList [VStr (ascii ''design''), VStr (ascii ''ux'')]),
       (ascii ''published_at'', VTime (clk 0))],
      [(ascii ''title'', VStr (ascii ''Pricing Psychology for SaaS'')),
       (ascii ''slug'', VStr (ascii ''pricing-psychology-saas'')),
       (ascii ''excerpt'', VStr (ascii ''Anchoring, decoys and how to present value tiers.'')),
       (ascii ''content'', VStr (ascii ''<p>Great pricing pages tell a story of value...</p>'')),
       (ascii ''author'', VStr (ascii ''Team'')),
       (ascii ''tags'', VList [VStr (ascii ''growth''), VStr (ascii ''pricing'')]),
       (ascii ''published_at'', VTime (clk 1))],
      [(ascii ''title'', VStr (ascii ''Frictionless Onboarding'')),
       (ascii ''slug'', VStr (ascii ''frictionless-onboarding'')),
       (ascii ''excerpt'', VStr (ascii ''Best practices for sign-up and authentication flows.'')),
       (ascii ''content'', VStr (ascii ''<p>Every extra field reduces conversions...</p>'')),
       (ascii ''author'', VStr (ascii ''Team'')),
       (ascii ''tags'', VList [VStr (ascii ''product''), VStr (ascii ''auth'')]),
       (ascii ''published_at'', VTime (clk 2))]]"

text \<open>
  The loop \<open>for post in samples: create_document("blogpost", post)\<close>. An exception ends
  it and leaves what was inserted before; the \<open>i\<close>-th reading of the clock stamps the
  insertion.
\<close>

fun create_all ::
  "pylib \<Rightarrow> (nat \<Rightarrow> nat) \<Rightarrow> nat \<Rightarrow> database option \<Rightarrow> doc list \<Rightarrow> (error + unit) \<times> database option" where
  "create_all L clk i db [] = (Inr (), db)"
| "create_all L clk i db (post # posts) =
     (case create_document L (clk i) db (ascii ''blogpost'') post of
        (Inl e, db') \<Rightarrow> (Inl e, db')
      | (Inr _, db') \<Rightarrow> create_all L clk (Suc i) db' posts)"

definition ensure_sample_blog_posts ::
  "pylib \<Rightarrow> (nat \<Rightarrow> nat) \<Rightarrow> database option \<Rightarrow> (error + unit) \<times> database option" where
  "ensure_sample_blog_posts L clk db =
     (let count = (case db of Some s \<Rightarrow> count_documents s (ascii ''blogpost'') [] | None \<Rightarrow> 0)
      in if count = 0 \<and> db \<noteq> None
         then create_all L clk 3 db (samples clk)
         else (Inr (), db))"

text \<open>The dictionary \<open>list_blog\<close> appends for a document \<open>d\<close>.\<close>

definition list_blog_item :: "doc \<Rightarrow> doc" where
  "list_blog_item d =
     [(ascii ''title'', get d (ascii ''title'')),
      (ascii ''slug'', get d (ascii ''slug'')),
      (ascii ''excerpt'', get d (ascii ''excerpt'')),
      (ascii ''author'', get_default d (ascii ''author'') (VStr (ascii ''Team''))),
      (ascii ''published_at'', get d (ascii ''published_at'')),
      (ascii ''tags'', get_default d (ascii ''tags'') (VList []))]"

definition list_blog ::
  "pylib \<Rightarrow> (nat \<Rightarrow> nat) \<Rightarrow> database option \<Rightarrow> int \<Rightarrow> (error + doc) \<times> database option" where
  "list_blog L clk db limit =
     (case ensure_sample_blog_posts L clk db of
        (Inl e, db') \<Rightarrow> (Inl e, db')
      | (Inr _, db') \<Rightarrow>
          (let docs = get_documents db' (ascii ''blogpost'') [] limit;
               items = map list_blog_item docs
           in (Inr [(ascii ''posts'', VList (map VDict items))], db')))"

definition get_blog :: "database option \<Rightarrow> pystr \<Rightarrow> error + doc" where
  "get_blog db slug =
     (let doc =
            (case db of
               Some s \<Rightarrow> find_one s (ascii ''blogpost'') [(ascii ''slug'', VStr slug)]
             | None \<Rightarrow> None)
      in case doc of
           None \<Rightarrow> Inl (HTTPException 404 (ascii ''Post not found''))
         | Some d \<Rightarrow>
             if \<not> truthy doc
             then Inl (HTTPException 404 (ascii ''Post not found''))
             else Inr [(ascii ''title'', get d (ascii ''title'')),
                       (ascii ''slug'', get d (ascii ''slug'')),
                       (ascii ''excerpt'', get d (ascii ''excerpt'')),
                       (ascii ''content'', get d (ascii ''content'')),
                       (ascii ''author'', get_default d (ascii ''author'') (VStr (ascii ''Team''))),
                       (ascii ''published_at'', get d (ascii ''published_at'')),
                       (ascii ''tags'', get_default d (ascii ''tags'') (VList []))])"

section \<open>Contact\<close>

record ContactRequest =
  contact_name :: pystr
  contact_email :: pystr
  contact_message :: pystr

definition contact ::
  "pylib \<Rightarrow> nat \<Rightarrow> database option \<Rightarrow> ContactRequest \<Rightarrow> (error + doc) \<times> database option" where
  "contact L now db payload =
     (let doc = [(ascii ''name'', VStr (contact_name payload)),
                 (ascii ''email'', VStr (contact_email payload)),
                 (ascii ''message'', VStr (contact_message payload)),
                 (ascii ''status'', VStr (ascii ''new''))]
      in case create_document L now db (ascii ''contactmessage'') doc of
           (Inl e, db') \<Rightarrow> (Inl e, db')
         | (Inr message_id, db') \<Rightarrow>
             (Inr [(ascii ''id'', VStr message_id),
                   (ascii ''status'', VStr (ascii ''received''))],
              db'))"

section \<open>The diagnostic endpoint\<close>

text \<open>
  An exception \<open>e\<close> with its message \<open>str(e)\<close>: an instance of \<open>Exception\<close>, as the
  errors of a database driver are, which is what \<open>except Exception\<close> catches. For
  \<open>GET /test\<close> what matters of the handle \<open>db\<close> is what its introspection does:
  \<open>hasattr(db, 'name')\<close>, \<open>db.name\<close> and \<open>db.list_collection_names()\<close> each return or
  raise.
\<close>

datatype exn = Exception pystr

fun message :: "exn \<Rightarrow> pystr" where
  "message (Exception m) = m"

record handle =
  hasattr_name :: "exn + bool"
  name_attr :: "exn + val"
  list_collection_names :: "exn + pystr list"

text \<open>
  Statements on the mutable \<open>response\<close> dictionary: each returns the dictionary as it
  left it, also when it raises, so that a handler sees the assignments made before the
  exception.
\<close>

type_synonym stmt = "doc \<Rightarrow> (exn + unit) \<times> doc"

definition setitem :: "pystr \<Rightarrow> val \<Rightarrow> stmt" where
  "setitem k v r = (Inr (), AList.update k v r)"

definition raise :: "exn \<Rightarrow> stmt" where
  "raise e r = (Inl e, r)"

definition pass :: stmt where
  "pass r = (Inr (), r)"

definition seq :: "stmt \<Rightarrow> stmt \<Rightarrow> stmt" where
  "seq m n r = (case m r of (Inl e, r') \<Rightarrow> (Inl e, r') | (Inr _, r') \<Rightarrow> n r')"

definition try_except :: "stmt \<Rightarrow> (exn \<Rightarrow> stmt) \<Rightarrow> stmt" where
  "try_except m h r = (case m r of (Inl e, r') \<Rightarrow> h e r' | (Inr u, r') \<Rightarrow> (Inr u, r'))"

text \<open>
  The pictographs of the status strings, as code points: U+2705, U+274C, and U+26A0
  followed by U+FE0F.
\<close>

definition check_mark :: pystr where
  "check_mark = [0x2705]"

definition cross_mark :: pystr where
  "cross_mark = [0x274C]"

definition warning_sign :: pystr where
  "warning_sign = [0x26A0, 0xFE0F]"

text \<open>The inner \<open>try\<close> of \<open>test_database\<close>, on a live handle \<open>h\<close>.\<close>

definition test_database_inner :: "handle \<Rightarrow> stmt" where
  "test_database_inner h =
     try_except
       (case list_collection_names h of
          Inl e \<Rightarrow> raise e
        | Inr names \<Rightarrow>
            seq (setitem (ascii ''collections'') (VList (map VStr names)))
                (setitem (ascii ''database'') (VStr (check_mark @ ascii '' Connected & Working''))))
       (\<lambda>e. setitem (ascii ''database'')
               (VStr (warning_sign @ ascii '' Connected but Error: '' @ take 80 (message e))))"

text \<open>
  \<open>test_database\<close>; \<open>getenv_url\<close> is \<open>os.getenv("DATABASE_URL")\<close>, true when it is set and
  not empty.
\<close>

definition test_database :: "pystr option \<Rightarrow> handle option \<Rightarrow> exn + doc" where
  "test_database getenv_url db =
     (let response =
            [(ascii ''backend'', VStr (check_mark @ ascii '' Running'')),
             (ascii ''database'', VStr (cross_mark @ ascii '' Not Available'')),
             (ascii ''database_url'', VStr (cross_mark @ ascii '' Not Set'')),
             (ascii ''database_name'', VStr (cross_mark @ ascii '' Not Set'')),
             (ascii ''connection_status'', VStr (ascii ''Not Connected'')),
             (ascii ''collections'', VList [])]
      in case
           try_except
             (case db of
                None \<Rightarrow> pass
              | Some h \<Rightarrow>
                  seq (setitem (ascii ''database'') (VStr (check_mark @ ascii '' Available'')))
                 (seq (setitem (ascii ''database_url'')
                         (VStr (if getenv_url \<noteq> None \<and> getenv_url \<noteq> Some []
                                then check_mark @ ascii '' Set''
                                else cross_mark @ ascii '' Not Set'')))
                 (seq (case hasattr_name h of
                         Inl e \<Rightarrow> raise e
                       | Inr True \<Rightarrow>
                           (case name_attr h of
                              Inl e \<Rightarrow> raise e
                            | Inr v \<Rightarrow> setitem (ascii ''database_name'') v)
                       | Inr False \<Rightarrow>
                           setitem (ascii ''database_name'') (VStr (check_mark @ ascii '' Connected'')))
                 (seq (setitem (ascii ''connection_status'') (VStr (ascii ''Connected'')))
                      (test_database_inner h)))))
             (\<lambda>e. setitem (ascii ''database'')
                     (VStr (cross_mark @ ascii '' Error: '' @ take 80 (message e))))
             response
         of
           (Inl e, _) \<Rightarrow> Inl e
         | (Inr _, r) \<Rightarrow> Inr r)"

section \<open>Concrete inputs\<close>

text \<open>
  Inputs on which the theorems below are exercised: a stand-in for the library (a digest
  that prefixes a character, a \<open>str\<close> that renders an identifier \<open>n\<close> as two code
  points), an empty database, and three payloads.
\<close>

definition lib0 :: pylib where
  "lib0 = \<lparr>hexdigest = (\<lambda>t. 35 # t),
           str = (\<lambda>v. case v of VOid n \<Rightarrow> [111, n] | VStr s \<Rightarrow> s | _ \<Rightarrow> ascii ''None'')\<rparr>"

definition empty_db :: database where
  "empty_db = \<lparr>collections = (\<lambda>c. []), next_oid = 0\<rparr>"

definition ann :: RegisterRequest where
  "ann = \<lparr>reg_name = ascii ''Ann'', reg_email = ascii ''ann@example.com'',
          reg_password = ascii ''secret''\<rparr>"

text \<open>
  A database with one user, stored without a \<open>plan\<close>, and a second payload with that
  user's email.
\<close>

definition bob_doc :: doc where
  "bob_doc = [(ascii ''name'', VStr (ascii ''Bob'')),
              (ascii ''email'', VStr (ascii ''bob@example.com'')),
              (ascii ''password_hash'', VStr (35 # ascii ''hunter2'')),
              (ascii ''is_active'', VBool True),
              (ascii ''_id'', VOid 0)]"

definition bob_db :: database where
  "bob_db = \<lparr>collections = (\<lambda>c. if c = ascii ''user'' then [bob_doc] else []), next_oid = 1\<rparr>"

definition bob2 :: RegisterRequest where
  "bob2 = \<lparr>reg_name = ascii ''Robert'', reg_email = ascii ''bob@example.com'',
          reg_password = ascii ''other''\<rparr>"

text \<open>
  A database whose \<open>blogpost\<close> collection holds the three sample posts, and a contact
  payload.
\<close>

definition blog_db :: database where
  "blog_db = \<lparr>collections = (\<lambda>c. if c = ascii ''blogpost'' then samples id else []), next_oid = 3\<rparr>"

definition carol :: ContactRequest where
  "carol = \<lparr>contact_name = ascii ''Carol'', contact_email = ascii ''carol@example.com'',
            contact_message = ascii ''Hello''\<rparr>"

text \<open>
  A payload whose password is the single surrogate U+D800, and a database with one user
  whose \<open>plan\<close> is stored as \<open>None\<close>.
\<close>

definition dan :: RegisterRequest where
  "dan = \<lparr>reg_name = ascii ''Dan'', reg_email = ascii ''dan@example.com'',
          reg_password = [0xD800]\<rparr>"

definition eve_doc :: doc where
  "eve_doc = [(ascii ''name'', VStr (ascii ''Eve'')),
              (ascii ''email'', VStr (ascii ''eve@example.com'')),
              (ascii ''password_hash'', VStr (35 # ascii ''pw'')),
              (ascii ''plan'', VNone),
              (ascii ''_id'', VOid 0)]"

definition eve_db :: database where
  "eve_db = \<lparr>collections = (\<lambda>c. if c = ascii ''user'' then [eve_doc] else []), next_oid = 1\<rparr>"

text \<open>
  A database with two posts: the first has a \<open>content\<close> and no \<open>author\<close>, the second an
  author and nothing else but its title and slug.
\<close>

definition note_a :: doc where
  "note_a = [(ascii ''title'', VStr (ascii ''A'')),
             (ascii ''slug'', VStr (ascii ''a'')),
             (ascii ''excerpt'', VStr (ascii ''first'')),
             (ascii ''content'', VStr (ascii ''<p>a</p>'')),
             (ascii ''tags'', VList [VStr (ascii ''x'')]),
             (ascii ''published_at'', VTime 1)]"

definition note_b :: doc where
  "note_b = [(ascii ''title'', VStr (ascii ''B'')),
             (ascii ''slug'', VStr (ascii ''b'')),
             (ascii ''author'', VStr (ascii ''Bea''))]"

definition notes_db :: database where
  "notes_db =
     \<lparr>collections = (\<lambda>c. if c = ascii ''blogpost'' then [note_a, note_b] else []),
      next_oid = 2\<rparr>"

text \<open>
  Two handles for the diagnostic endpoint: on the first \<open>list_collection_names\<close> raises
  with a message of a hundred characters, on the second \<open>hasattr\<close> already does.
\<close>

definition failing_handle :: handle where
  "failing_handle =
     \<lparr>hasattr_name = Inr True, name_attr = Inr (VStr (ascii ''app'')),
      list_collection_names = Inl (Exception (replicate 100 120))\<rparr>"

definition broken_handle :: handle where
  "broken_handle =
     \<lparr>hasattr_name = Inl (Exception (replicate 100 121)),
      name_attr = Inr (VStr (ascii ''app'')), list_collection_names = Inr []\<rparr>"

section \<open>Basic facts\<close>

lemma ascii_eq_iff [simp]: "ascii s = ascii t \<longleftrightarrow> s = t"
  by (simp add: ascii_def inj_on_def)

lemma find_append:
  "List.find P (xs @ ys) = (case List.find P xs of None \<Rightarrow> List.find P ys | Some x \<Rightarrow> Some x)"
  by (induction xs) auto

lemma matches_single [simp]: "matches [(k, v)] d \<longleftrightarrow> map_of d k = Some v"
  by (simp add: matches_def)

lemma matches_Nil [simp]: "matches [] d"
  by (simp add: matches_def)

lemma get_eq_VStr [simp]: "get d k = VStr x \<longleftrightarrow> map_of d k = Some (VStr x)"
  by (simp add: get_def split: option.splits)

lemma find_one_None_iff:
  "find_one s c [(k, v)] = None \<longleftrightarrow> (\<forall>d \<in> set (collections s c). map_of d k \<noteq> Some v)"
  by (auto simp: find_one_def find_None_iff)

lemma find_one_SomeD:
  "find_one s c [(k, v)] = Some d \<Longrightarrow> d \<in> set (collections s c) \<and> map_of d k = Some v"
  by (auto simp: find_one_def find_Some_iff)

lemma find_one_truthy:
  "truthy (find_one s c [(k, v)]) \<longleftrightarrow> find_one s c [(k, v)] \<noteq> None"
  by (auto simp: truthy_def dest!: find_one_SomeD split: option.splits)

lemma create_document_Some:
  "create_document L now (Some s) c data =
     (Inr (str L (VOid (next_oid s))),
      Some (s\<lparr>collections := (collections s)(c := collections s c @ [stamp now (next_oid s) data]),
              next_oid := Suc (next_oid s)\<rparr>))"
  by (simp add: create_document_def Let_def)

lemma create_document_None:
  "create_document L now None c data = (Inl StorageUnavailable, None)"
  by (simp add: create_document_def)

lemma register_fresh:
  assumes "find_one s (ascii ''user'') [(ascii ''email'', VStr (reg_email p))] = None"
    and "sha256 L (reg_password p) = Inr digest"
  shows "register L now (Some s) p =
     (Inr [(ascii ''id'', VStr (str L (VOid (next_oid s)))),
           (ascii ''name'', VStr (reg_name p)),
           (ascii ''email'', VStr (reg_email p)),
           (ascii ''plan'', VStr (ascii ''free''))],
      Some (s\<lparr>collections := (collections s)
                 (ascii ''user'' := collections s (ascii ''user'') @
                    [[(ascii ''name'', VStr (reg_name p)),
                      (ascii ''email'', VStr (reg_email p)),
                      (ascii ''password_hash'', VStr digest),
                      (ascii ''plan'', VStr (ascii ''free'')),
                      (ascii ''is_active'', VBool True),
                      (ascii ''created_at'', VTime now),
                      (ascii ''updated_at'', VTime now),
                      (ascii ''_id'', VOid (next_oid s))]]),
              next_oid := Suc (next_oid s)\<rparr>))"
  using assms by (simp add: register_def truthy_def create_document_Some stamp_def)

lemma register_unencodable:
  assumes "find_one s (ascii ''user'') [(ascii ''email'', VStr (reg_email p))] = None"
    and "sha256 L (reg_password p) = Inl e"
  shows "register L now (Some s) p = (Inl e, Some s)"
  using assms by (simp add: register_def truthy_def)

lemma register_dup:
  assumes "find_one s (ascii ''user'') [(ascii ''email'', VStr (reg_email p))] \<noteq> None"
  shows "register L now (Some s) p =
     (Inl (HTTPException 400 (ascii ''Email already registered'')), Some s)"
  using assms find_one_truthy[of s "ascii ''user''" "ascii ''email''" "VStr (reg_email p)"]
  by (simp add: register_def)

lemma register_None: "fst (register L now None p) \<noteq> Inr r \<and> snd (register L now None p) = None"
  by (simp add: register_def truthy_def create_document_None split: sum.splits)

lemma sha256_cases:
  obtains (ok) digest where "sha256 L text = Inr digest" | (err) e where "sha256 L text = Inl e"
  by (cases "sha256 L text") auto

lemma encode_ascii:
  "encode_utf8 (ascii ''secret'') = Inr (ascii ''secret'')"
  "encode_utf8 (ascii ''hunter2'') = Inr (ascii ''hunter2'')"
  "encode_utf8 (ascii ''wrong'') = Inr (ascii ''wrong'')"
  "encode_utf8 (ascii ''pw'') = Inr (ascii ''pw'')"
  by (simp_all add: ascii_def encode_char_def)

lemma sha256_surrogate: "sha256 L [0xD800] = Inl UnicodeEncodeError"
  by (simp add: sha256_def encode_char_def)

lemma create_all_Some:
  "create_all L clk i (Some s) posts =
     (Inr (),
      Some (s\<lparr>collections := (collections s)
                 (ascii ''blogpost'' := collections s (ascii ''blogpost'') @
                    map (\<lambda>(j, post). stamp (clk (i + j)) (next_oid s + j) post) (enumerate 0 posts)),
              next_oid := next_oid s + length posts\<rparr>))"
proof (induction posts arbitrary: i s)
  case Nil
  show ?case by simp
next
  case (Cons post posts)
  have e: "map (\<lambda>(j, post). stamp (clk (i + j)) (next_oid s + j) post) (enumerate (Suc 0) posts)
      = map (\<lambda>(j, post). stamp (clk (Suc i + j)) (Suc (next_oid s) + j) post) (enumerate 0 posts)"
    by (simp add: enumerate_Suc_eq [of 0] case_prod_beta)
  show ?case
    by (simp add: create_document_Some Cons.IH e [simplified] cong: if_cong)
qed

lemma ensure_on_empty:
  assumes "collections s (ascii ''blogpost'') = []"
  shows "ensure_sample_blog_posts L clk (Some s) =
     (Inr (),
      Some (s\<lparr>collections := (collections s)
                 (ascii ''blogpost'' :=
                    [stamp (clk 3) (next_oid s) (samples clk ! 0),
                     stamp (clk 4) (next_oid s + 1) (samples clk ! 1),
                     stamp (clk 5) (next_oid s + 2) (samples clk ! 2)]),
              next_oid := next_oid s + 3\<rparr>))"
proof -
  have "length (samples clk) = 3" by (simp add: samples_def)
  then obtain a b c where abc: "samples clk = [a, b, c]"
    by (auto simp: length_Suc_conv numeral_3_eq_3)
  show ?thesis
    using assms
    by (simp add: ensure_sample_blog_posts_def count_documents_def create_all_Some abc
        eval_nat_numeral del: create_all.simps)
qed

lemma ensure_on_nonempty:
  assumes "collections s (ascii ''blogpost'') \<noteq> []"
  shows "ensure_sample_blog_posts L clk (Some s) = (Inr (), Some s)"
  using assms by (simp add: ensure_sample_blog_posts_def count_documents_def)

lemma ensure_None: "ensure_sample_blog_posts L clk None = (Inr (), None)"
  by (simp add: ensure_sample_blog_posts_def)

lemma ensure_ok: "fst (ensure_sample_blog_posts L clk db) = Inr ()"
proof (cases db)
  case None
  then show ?thesis by (simp add: ensure_None)
next
  case (Some s)
  then show ?thesis
    by (cases "collections s (ascii ''blogpost'') = []")
      (simp_all add: ensure_on_empty ensure_on_nonempty)
qed

lemma list_blog_eq:
  "list_blog L clk db limit =
     (Inr [(ascii ''posts'',
            VList (map VDict (map list_blog_item
              (get_documents (snd (ensure_sample_blog_posts L clk db)) (ascii ''blogpost'') [] limit))))],
      snd (ensure_sample_blog_posts L clk db))"
  using ensure_ok [of L clk db]
  by (cases "ensure_sample_blog_posts L clk db") (simp add: list_blog_def del: map_map)

lemma get_documents_positive:
  "0 < limit \<Longrightarrow> get_documents (Some s) c [] limit = take (nat limit) (collections s c)"
  by (simp add: get_documents_def cursor_limit_def)

lemmas stmt_defs = seq_def try_except_def setitem_def raise_def pass_def

section \<open>Register and login\<close>

text \<open>
  Claim C1 (register/login round trip): whenever \<open>register\<close> succeeds, a following
  \<open>login\<close> with the same email and password, on the store \<open>register\<close> left, succeeds
  and returns the very response \<open>register\<close> returned: the same \<open>id\<close>, \<open>name\<close>, \<open>email\<close>
  and \<open>plan\<close>. That \<open>register\<close> succeeded already says that the store held no user with
  that email.
\<close>

theorem register_login_round_trip:
  assumes "register L now db p = (Inr r, db')"
  shows "login L db' \<lparr>login_email = reg_email p, login_password = reg_password p\<rparr> = Inr r
     \<and> map fst r = [ascii ''id'', ascii ''name'', ascii ''email'', ascii ''plan'']"
proof (cases db)
  case None
  with assms register_None [of L now p r] show ?thesis by simp
next
  case (Some s)
  let ?flt = "[(ascii ''email'', VStr (reg_email p))]"
  show ?thesis
  proof (cases "find_one s (ascii ''user'') ?flt")
    case (Some d)
    with assms \<open>db = Some s\<close> show ?thesis by (simp add: register_dup)
  next
    case None
    show ?thesis
    proof (cases rule: sha256_cases [of L "reg_password p"])
      case (err e)
      with None assms \<open>db = Some s\<close> show ?thesis by (simp add: register_unencodable)
    next
      case (ok digest)
      with None assms \<open>db = Some s\<close> show ?thesis
        by (auto simp: register_fresh login_def find_one_def find_append
            truthy_def get_def get_default_def)
    qed
  qed
qed

theorem register_login_round_trip_witness:
  "fst (register lib0 7 (Some empty_db) ann) =
     Inr [(ascii ''id'', VStr [111, 0]), (ascii ''name'', VStr (ascii ''Ann'')),
          (ascii ''email'', VStr (ascii ''ann@example.com'')),
          (ascii ''plan'', VStr (ascii ''free''))]
   \<and> login lib0 (snd (register lib0 7 (Some empty_db) ann))
        \<lparr>login_email = ascii ''ann@example.com'', login_password = ascii ''secret''\<rparr> =
     Inr [(ascii ''id'', VStr [111, 0]), (ascii ''name'', VStr (ascii ''Ann'')),
          (ascii ''email'', VStr (ascii ''ann@example.com'')),
          (ascii ''plan'', VStr (ascii ''free''))]"
proof -
  let ?R = "[(ascii ''id'', VStr [111, 0]), (ascii ''name'', VStr (ascii ''Ann'')),
          (ascii ''email'', VStr (ascii ''ann@example.com'')),
          (ascii ''plan'', VStr (ascii ''free''))]"
  have f: "find_one empty_db (ascii ''user'') [(ascii ''email'', VStr (reg_email ann))] = None"
    by (simp add: find_one_def empty_db_def)
  have h: "sha256 lib0 (reg_password ann) = Inr (35 # ascii ''secret'')"
    by (simp add: sha256_def ann_def encode_ascii lib0_def)
  have r1: "fst (register lib0 7 (Some empty_db) ann) = Inr ?R"
    by (simp add: register_fresh [OF f h]) (simp add: lib0_def empty_db_def ann_def)
  then have r: "register lib0 7 (Some empty_db) ann =
      (Inr ?R, snd (register lib0 7 (Some empty_db) ann))"
    by (simp add: prod_eq_iff)
  have e: "reg_email ann = ascii ''ann@example.com''" "reg_password ann = ascii ''secret''"
    by (simp_all add: ann_def)
  from register_login_round_trip [OF r] show ?thesis
    unfolding e using r1 by blast
qed

text \<open>
  Claim C2, as amended (duplicate-email rejection): with a live database, \<open>register\<close>
  raises \<open>HTTPException(400, "Email already registered")\<close> when some document of the
  \<open>user\<close> collection has the payload's email, whatever the password, and leaves the
  database as it was. When no document has it and the password can be encoded in UTF-8,
  \<open>register\<close> succeeds: it appends one document with the payload's name and email, the
  digest of the password's bytes, \<open>plan = "free"\<close> and \<open>is_active = True\<close> (and the
  adapter's stamps and identifier), and returns the new identifier, the name, the email
  and the plan \<open>"free"\<close>.
\<close>

theorem register_duplicate_email:
  "((\<exists>d \<in> set (collections s (ascii ''user'')). get d (ascii ''email'') = VStr (reg_email p)) \<longrightarrow>
      register L now (Some s) p =
        (Inl (HTTPException 400 (ascii ''Email already registered'')), Some s))
   \<and> (\<forall>bytes.
        (\<forall>d \<in> set (collections s (ascii ''user'')). get d (ascii ''email'') \<noteq> VStr (reg_email p))
        \<and> encode_utf8 (reg_password p) = Inr bytes \<longrightarrow>
      register L now (Some s) p =
        (Inr [(ascii ''id'', VStr (str L (VOid (next_oid s)))),
              (ascii ''name'', VStr (reg_name p)),
              (ascii ''email'', VStr (reg_email p)),
              (ascii ''plan'', VStr (ascii ''free''))],
         Some (s\<lparr>collections := (collections s)
                 (ascii ''user'' := collections s (ascii ''user'') @
                    [[(ascii ''name'', VStr (reg_name p)),
                      (ascii ''email'', VStr (reg_email p)),
                      (ascii ''password_hash'', VStr (hexdigest L bytes)),
                      (ascii ''plan'', VStr (ascii ''free'')),
                      (ascii ''is_active'', VBool True),
                      (ascii ''created_at'', VTime now),
                      (ascii ''updated_at'', VTime now),
                      (ascii ''_id'', VOid (next_oid s))]]),
              next_oid := Suc (next_oid s)\<rparr>)))"
proof (intro conjI impI allI)
  assume "\<exists>d \<in> set (collections s (ascii ''user'')). get d (ascii ''email'') = VStr (reg_email p)"
  then have "find_one s (ascii ''user'') [(ascii ''email'', VStr (reg_email p))] \<noteq> None"
    unfolding find_one_None_iff by simp
  then show "register L now (Some s) p =
        (Inl (HTTPException 400 (ascii ''Email already registered'')), Some s)"
    by (rule register_dup)
next
  fix bytes
  assume a: "(\<forall>d \<in> set (collections s (ascii ''user'')). get d (ascii ''email'') \<noteq> VStr (reg_email p))
        \<and> encode_utf8 (reg_password p) = Inr bytes"
  then have f: "find_one s (ascii ''user'') [(ascii ''email'', VStr (reg_email p))] = None"
    by (simp add: find_one_None_iff)
  from a have h: "sha256 L (reg_password p) = Inr (hexdigest L bytes)"
    by (simp add: sha256_def)
  show "register L now (Some s) p =
        (Inr [(ascii ''id'', VStr (str L (VOid (next_oid s)))),
              (ascii ''name'', VStr (reg_name p)),
              (ascii ''email'', VStr (reg_email p)),
              (ascii ''plan'', VStr (ascii ''free''))],
         Some (s\<lparr>collections := (collections s)
                 (ascii ''user'' := collections s (ascii ''user'') @
                    [[(ascii ''name'', VStr (reg_name p)),
                      (ascii ''email'', VStr (reg_email p)),
                      (ascii ''password_hash'', VStr (hexdigest L bytes)),
                      (ascii ''plan'', VStr (ascii ''free'')),
                      (ascii ''is_active'', VBool True),
                      (ascii ''created_at'', VTime now),
                      (ascii ''updated_at'', VTime now),
                      (ascii ''_id'', VOid (next_oid s))]]),
              next_oid := Suc (next_oid s)\<rparr>))"
    using f h by (rule register_fresh)
qed

theorem register_duplicate_email_witness:
  "register lib0 7 (Some bob_db) bob2 =
     (Inl (HTTPException 400 (ascii ''Email already registered'')), Some bob_db)
   \<and> register lib0 7 (Some bob_db) ann =
        (Inr [(ascii ''id'', VStr [111, 1]),
              (ascii ''name'', VStr (ascii ''Ann'')),
              (ascii ''email'', VStr (ascii ''ann@example.com'')),
              (ascii ''plan'', VStr (ascii ''free''))],
         Some (bob_db\<lparr>collections := (collections bob_db)
                 (ascii ''user'' := [bob_doc,
                     [(ascii ''name'', VStr (ascii ''Ann'')),
                      (ascii ''email'', VStr (ascii ''ann@example.com'')),
                      (ascii ''password_hash'', VStr (35 # ascii ''secret'')),
                      (ascii ''plan'', VStr (ascii ''free'')),
                      (ascii ''is_active'', VBool True),
                      (ascii ''created_at'', VTime 7),
                      (ascii ''updated_at'', VTime 7),
                      (ascii ''_id'', VOid 1)]]),
              next_oid := 2\<rparr>))"
proof -
  have dup: "\<exists>d \<in> set (collections bob_db (ascii ''user'')).
      get d (ascii ''email'') = VStr (reg_email bob2)"
    by (simp add: bob_db_def bob_doc_def bob2_def)
  have fresh: "(\<forall>d \<in> set (collections bob_db (ascii ''user'')).
      get d (ascii ''email'') \<noteq> VStr (reg_email ann))
      \<and> encode_utf8 (reg_password ann) = Inr (ascii ''secret'')"
    by (simp add: bob_db_def bob_doc_def ann_def encode_ascii)
  have 1: "register lib0 7 (Some bob_db) bob2 =
     (Inl (HTTPException 400 (ascii ''Email already registered'')), Some bob_db)"
    by (rule register_duplicate_email [THEN conjunct1, THEN mp, OF dup])
  note 2 = register_duplicate_email [THEN conjunct2, THEN spec, THEN mp, OF fresh, of lib0 7]
  have 3: "next_oid bob_db = 1" "collections bob_db (ascii ''user'') = [bob_doc]"
    "str lib0 (VOid 1) = [111, 1]" "hexdigest lib0 (ascii ''secret'') = 35 # ascii ''secret''"
    "reg_name ann = ascii ''Ann''" "reg_email ann = ascii ''ann@example.com''"
    by (simp_all add: bob_db_def lib0_def ann_def)
  show ?thesis
    unfolding 1 2 3 by simp
qed

text \<open>
  The claim as stated, for every first registration of a fresh email, fails for a
  password that UTF-8 cannot encode. On a database without users, the payload whose
  password is the surrogate U+D800 passes the lookup, \<open>sha256\<close> raises
  \<open>UnicodeEncodeError\<close> while \<open>user_doc\<close> is built, and nothing is stored.
\<close>

theorem register_surrogate_password_counterexample:
  "collections empty_db (ascii ''user'') = []
   \<and> register lib0 7 (Some empty_db) dan = (Inl UnicodeEncodeError, Some empty_db)"
  by (simp add: register_def find_one_def truthy_def dan_def empty_db_def
      sha256_surrogate)

text \<open>
  Claim C3, as amended (unified login failure): \<open>login\<close> raises
  \<open>HTTPException(401, "Invalid credentials")\<close> when there is no database or no document
  of the \<open>user\<close> collection has the payload's email, whatever the password; and for a
  password that can be encoded in UTF-8 it raises the very same exception when the user
  the lookup returns stores something else than the digest of the password's bytes.
\<close>

theorem login_invalid_credentials:
  "((db = None \<or> (\<exists>s. db = Some s \<and>
        (\<forall>d \<in> set (collections s (ascii ''user'')). get d (ascii ''email'') \<noteq> VStr (login_email p))))
      \<longrightarrow> login L db p = Inl (HTTPException 401 (ascii ''Invalid credentials'')))
   \<and> ((\<exists>s u bytes. db = Some s
          \<and> find_one s (ascii ''user'') [(ascii ''email'', VStr (login_email p))] = Some u
          \<and> encode_utf8 (login_password p) = Inr bytes
          \<and> get u (ascii ''password_hash'') \<noteq> VStr (hexdigest L bytes))
      \<longrightarrow> login L db p = Inl (HTTPException 401 (ascii ''Invalid credentials'')))"
proof (intro conjI impI)
  assume "db = None \<or> (\<exists>s. db = Some s \<and>
        (\<forall>d \<in> set (collections s (ascii ''user'')). get d (ascii ''email'') \<noteq> VStr (login_email p)))"
  then show "login L db p = Inl (HTTPException 401 (ascii ''Invalid credentials''))"
  proof
    assume "db = None"
    then show ?thesis by (simp add: login_def)
  next
    assume "\<exists>s. db = Some s \<and>
        (\<forall>d \<in> set (collections s (ascii ''user'')). get d (ascii ''email'') \<noteq> VStr (login_email p))"
    then obtain s where s: "db = Some s"
      and "\<forall>d \<in> set (collections s (ascii ''user'')). get d (ascii ''email'') \<noteq> VStr (login_email p)"
      by blast
    then have "find_one s (ascii ''user'') [(ascii ''email'', VStr (login_email p))] = None"
      by (simp add: find_one_None_iff)
    with s show ?thesis by (simp add: login_def)
  qed
next
  assume "\<exists>s u bytes. db = Some s
          \<and> find_one s (ascii ''user'') [(ascii ''email'', VStr (login_email p))] = Some u
          \<and> encode_utf8 (login_password p) = Inr bytes
          \<and> get u (ascii ''password_hash'') \<noteq> VStr (hexdigest L bytes)"
  then show "login L db p = Inl (HTTPException 401 (ascii ''Invalid credentials''))"
    by (auto simp: login_def sha256_def simp del: get_eq_VStr)
qed

theorem login_invalid_credentials_witness:
  "login lib0 None \<lparr>login_email = ascii ''bob@example.com'', login_password = ascii ''hunter2''\<rparr>
     = Inl (HTTPException 401 (ascii ''Invalid credentials''))
   \<and> login lib0 (Some bob_db)
        \<lparr>login_email = ascii ''ann@example.com'', login_password = ascii ''secret''\<rparr>
     = Inl (HTTPException 401 (ascii ''Invalid credentials''))
   \<and> find_one bob_db (ascii ''user'') [(ascii ''email'', VStr (ascii ''bob@example.com''))]
     = Some bob_doc
   \<and> encode_utf8 (ascii ''wrong'') = Inr (ascii ''wrong'')
   \<and> get bob_doc (ascii ''password_hash'') \<noteq> VStr (hexdigest lib0 (ascii ''wrong''))
   \<and> login lib0 (Some bob_db)
        \<lparr>login_email = ascii ''bob@example.com'', login_password = ascii ''wrong''\<rparr>
     = Inl (HTTPException 401 (ascii ''Invalid credentials''))"
proof -
  let ?w = "\<lparr>login_email = ascii ''bob@example.com'', login_password = ascii ''wrong''\<rparr>"
  have none: "Some bob_db = None \<or> (\<exists>s. Some bob_db = Some s \<and>
      (\<forall>d \<in> set (collections s (ascii ''user'')).
      get d (ascii ''email'') \<noteq> VStr (login_email
         \<lparr>login_email = ascii ''ann@example.com'', login_password = ascii ''secret''\<rparr>)))"
    by (simp add: bob_db_def bob_doc_def)
  have found: "find_one bob_db (ascii ''user'') [(ascii ''email'', VStr (ascii ''bob@example.com''))]
     = Some bob_doc"
    by (simp add: find_one_def bob_db_def) (simp add: bob_doc_def)
  have enc: "encode_utf8 (ascii ''wrong'') = Inr (ascii ''wrong'')"
    by (simp add: encode_ascii)
  have differs: "get bob_doc (ascii ''password_hash'') \<noteq> VStr (hexdigest lib0 (ascii ''wrong''))"
    by (simp add: bob_doc_def lib0_def)
  have 1: "login lib0 None
      \<lparr>login_email = ascii ''bob@example.com'', login_password = ascii ''hunter2''\<rparr>
     = Inl (HTTPException 401 (ascii ''Invalid credentials''))"
    by (rule login_invalid_credentials [THEN conjunct1, THEN mp]) simp
  have 2: "login lib0 (Some bob_db)
        \<lparr>login_email = ascii ''ann@example.com'', login_password = ascii ''secret''\<rparr>
     = Inl (HTTPException 401 (ascii ''Invalid credentials''))"
    by (rule login_invalid_credentials [THEN conjunct1, THEN mp, OF none])
  have "\<exists>s u bytes. Some bob_db = Some s
          \<and> find_one s (ascii ''user'') [(ascii ''email'', VStr (login_email ?w))] = Some u
          \<and> encode_utf8 (login_password ?w) = Inr bytes
          \<and> get u (ascii ''password_hash'') \<noteq> VStr (hexdigest lib0 bytes)"
    using found enc differs by (intro exI [of _ bob_db] exI [of _ bob_doc] exI [of _ "ascii ''wrong''"]) simp
  then have 3: "login lib0 (Some bob_db) ?w
     = Inl (HTTPException 401 (ascii ''Invalid credentials''))"
    by (rule login_invalid_credentials [THEN conjunct2, THEN mp])
  from 1 2 found enc differs 3 show ?thesis by (intro conjI)
qed

text \<open>
  The claim as stated, for every password, fails for a password that UTF-8 cannot
  encode, where the two cases are told apart: with the surrogate U+D800 as password, an
  email that no user has gives the 401, and the email of a stored user gives the
  \<open>UnicodeEncodeError\<close> that \<open>sha256\<close> raises, which is not the 401.
\<close>

theorem login_surrogate_password_counterexample:
  "login lib0 (Some bob_db)
        \<lparr>login_email = ascii ''ann@example.com'', login_password = [0xD800]\<rparr>
     = Inl (HTTPException 401 (ascii ''Invalid credentials''))
   \<and> login lib0 (Some bob_db)
        \<lparr>login_email = ascii ''bob@example.com'', login_password = [0xD800]\<rparr>
     = Inl UnicodeEncodeError"
  by (simp add: login_def find_one_def bob_db_def bob_doc_def truthy_def
      sha256_surrogate)

text \<open>
  Claim C9 (register atomicity on failure): whenever \<open>register\<close> raises, in particular
  the duplicate-email error 400, the database is what it was before the call: the lookup
  precedes the insertion and the handler raises before it inserts.
\<close>

theorem register_failure_leaves_store:
  assumes "register L now db p = (Inl e, db')"
  shows "db' = db"
proof (cases db)
  case None
  with assms register_None [of L now p] show ?thesis by (simp add: prod_eq_iff)
next
  case (Some s)
  show ?thesis
  proof (cases "find_one s (ascii ''user'') [(ascii ''email'', VStr (reg_email p))]")
    case None
    show ?thesis
    proof (cases rule: sha256_cases [of L "reg_password p"])
      case (err e')
      with None assms \<open>db = Some s\<close> show ?thesis by (simp add: register_unencodable)
    next
      case (ok digest)
      with None assms \<open>db = Some s\<close> show ?thesis by (simp add: register_fresh)
    qed
  next
    case (Some d)
    with assms \<open>db = Some s\<close> show ?thesis by (simp add: register_dup)
  qed
qed

theorem register_failure_leaves_store_witness:
  "fst (register lib0 7 (Some bob_db) bob2) =
      Inl (HTTPException 400 (ascii ''Email already registered''))
   \<and> snd (register lib0 7 (Some bob_db) bob2) = Some bob_db"
proof -
  have f: "find_one bob_db (ascii ''user'') [(ascii ''email'', VStr (reg_email bob2))] \<noteq> None"
    by (simp add: find_one_def bob_db_def bob2_def) (simp add: bob_doc_def)
  have 1: "fst (register lib0 7 (Some bob_db) bob2) =
      Inl (HTTPException 400 (ascii ''Email already registered''))"
    by (simp add: register_dup [OF f])
  then have "register lib0 7 (Some bob_db) bob2 =
      (Inl (HTTPException 400 (ascii ''Email already registered'')),
       snd (register lib0 7 (Some bob_db) bob2))"
    by (simp add: prod_eq_iff)
  from register_failure_leaves_store [OF this] 1 show ?thesis by simp
qed

text \<open>
  Claim C10, as amended (login plan default): let the user the lookup returns store the
  digest of the supplied password. When that document has no \<open>plan\<close> field, \<open>login\<close>
  succeeds with plan \<open>"free"\<close>; when it has one, \<open>login\<close> succeeds with the stored
  value, whatever it is. In both cases \<open>id\<close>, \<open>name\<close> and \<open>email\<close> are taken from the
  stored document.
\<close>

theorem login_plan_default:
  assumes "find_one s (ascii ''user'') [(ascii ''email'', VStr (login_email p))] = Some u"
    and "encode_utf8 (login_password p) = Inr bytes"
    and "get u (ascii ''password_hash'') = VStr (hexdigest L bytes)"
  shows "(map_of u (ascii ''plan'') = None \<longrightarrow>
      login L (Some s) p =
        Inr [(ascii ''id'', VStr (str L (get u (ascii ''_id'')))),
             (ascii ''name'', get u (ascii ''name'')),
             (ascii ''email'', get u (ascii ''email'')),
             (ascii ''plan'', VStr (ascii ''free''))])
     \<and> (\<forall>v. map_of u (ascii ''plan'') = Some v \<longrightarrow>
      login L (Some s) p =
        Inr [(ascii ''id'', VStr (str L (get u (ascii ''_id'')))),
             (ascii ''name'', get u (ascii ''name'')),
             (ascii ''email'', get u (ascii ''email'')),
             (ascii ''plan'', v)])"
proof -
  from assms(1) have "truthy (Some u)"
    by (auto simp: truthy_def dest: find_one_SomeD)
  with assms show ?thesis
    by (simp add: login_def get_default_def sha256_def)
qed

theorem login_plan_default_witness:
  "find_one bob_db (ascii ''user'') [(ascii ''email'', VStr (ascii ''bob@example.com''))] = Some bob_doc
   \<and> map_of bob_doc (ascii ''plan'') = None
   \<and> encode_utf8 (ascii ''hunter2'') = Inr (ascii ''hunter2'')
   \<and> get bob_doc (ascii ''password_hash'') = VStr (hexdigest lib0 (ascii ''hunter2''))
   \<and> login lib0 (Some bob_db)
        \<lparr>login_email = ascii ''bob@example.com'', login_password = ascii ''hunter2''\<rparr> =
     Inr [(ascii ''id'', VStr [111, 0]),
          (ascii ''name'', VStr (ascii ''Bob'')),
          (ascii ''email'', VStr (ascii ''bob@example.com'')),
          (ascii ''plan'', VStr (ascii ''free''))]"
proof -
  let ?p = "\<lparr>login_email = ascii ''bob@example.com'', login_password = ascii ''hunter2''\<rparr>"
  have found: "find_one bob_db (ascii ''user'') [(ascii ''email'', VStr (login_email ?p))]
     = Some bob_doc"
    by (simp add: find_one_def bob_db_def) (simp add: bob_doc_def)
  have noplan: "map_of bob_doc (ascii ''plan'') = None"
    by (simp add: bob_doc_def)
  have enc: "encode_utf8 (login_password ?p) = Inr (ascii ''hunter2'')"
    by (simp add: encode_ascii)
  have hash: "get bob_doc (ascii ''password_hash'') = VStr (hexdigest lib0 (ascii ''hunter2''))"
    by (simp add: bob_doc_def lib0_def)
  have vals: "str lib0 (get bob_doc (ascii ''_id'')) = [111, 0]"
    "get bob_doc (ascii ''name'') = VStr (ascii ''Bob'')"
    "get bob_doc (ascii ''email'') = VStr (ascii ''bob@example.com'')"
    by (simp_all add: bob_doc_def lib0_def get_def)
  from login_plan_default [OF found enc hash, THEN conjunct1, THEN mp, OF noplan]
    found noplan enc hash show ?thesis
    by (simp add: vals)
qed

text \<open>
  The claim as stated also promises \<open>"free"\<close> for a \<open>plan\<close> field that is unset. A user
  whose \<open>plan\<close> is stored as \<open>None\<close> has the key, so \<open>user.get("plan", "free")\<close> returns
  the stored \<open>None\<close>, and the response carries a null plan.
\<close>

theorem login_null_plan_counterexample:
  "map_of eve_doc (ascii ''plan'') = Some VNone
   \<and> login lib0 (Some eve_db)
        \<lparr>login_email = ascii ''eve@example.com'', login_password = ascii ''pw''\<rparr> =
     Inr [(ascii ''id'', VStr [111, 0]),
          (ascii ''name'', VStr (ascii ''Eve'')),
          (ascii ''email'', VStr (ascii ''eve@example.com'')),
          (ascii ''plan'', VNone)]"
  by (simp add: login_def find_one_def eve_db_def eve_doc_def truthy_def sha256_def
      encode_ascii lib0_def get_def get_default_def)

section \<open>Blog\<close>

text \<open>
  Claim C4 (blog seeding and its idempotence): on a live database whose \<open>blogpost\<close>
  collection is empty, \<open>list_blog\<close> (with a limit of at least three, as the default 6)
  inserts exactly the three sample posts, with their three distinct slugs, touches no
  other collection, and its response holds exactly those three posts: their titles,
  slugs, excerpts, the author \<open>"Team"\<close>, the three readings of the clock and their tags.
  Any later call leaves the database as it is, so nothing is inserted twice, and (with a
  limit of at least three) returns the same response.
\<close>

theorem list_blog_seeds_once:
  assumes "collections s (ascii ''blogpost'') = []" and "3 \<le> limit"
  shows "\<exists>s1. list_blog L clk (Some s) limit =
           (Inr [(ascii ''posts'', VList
           [VDict [(ascii ''title'', VStr (ascii ''Designing With Pastels: A Gentle UI Aesthetic'')),
                   (ascii ''slug'', VStr (ascii ''designing-with-pastels'')),
                   (ascii ''excerpt'', VStr (ascii
                      ''How soft color palettes can increase trust and readability in fintech apps.'')),
                   (ascii ''author'', VStr (ascii ''Team'')),
                   (ascii ''published_at'', VTime (clk 0)),
                   (ascii ''tags'', VList [VStr (ascii ''design''), VStr (ascii ''ux'')])],
            VDict [(ascii ''title'', VStr (ascii ''Pricing Psychology for SaaS'')),
                   (ascii ''slug'', VStr (ascii ''pricing-psychology-saas'')),
                   (ascii ''excerpt'', VStr (ascii
                      ''Anchoring, decoys and how to present value tiers.'')),
                   (ascii ''author'', VStr (ascii ''Team'')),
                   (ascii ''published_at'', VTime (clk 1)),
                   (ascii ''tags'', VList [VStr (ascii ''growth''), VStr (ascii ''pricing'')])],
            VDict [(ascii ''title'', VStr (ascii ''Frictionless Onboarding'')),
                   (ascii ''slug'', VStr (ascii ''frictionless-onboarding'')),
                   (ascii ''excerpt'', VStr (ascii
                      ''Best practices for sign-up and authentication flows.'')),
                   (ascii ''author'', VStr (ascii ''Team'')),
                   (ascii ''published_at'', VTime (clk 2)),
                   (ascii ''tags'', VList [VStr (ascii ''product''), VStr (ascii ''auth'')])]])],
            Some s1)
      \<and> collections s1 (ascii ''blogpost'') =
           [[(ascii ''title'', VStr (ascii ''Designing With Pastels: A Gentle UI Aesthetic'')),
             (ascii ''slug'', VStr (ascii ''designing-with-pastels'')),
             (ascii ''excerpt'', VStr (ascii
                ''How soft color palettes can increase trust and readability in fintech apps.'')),
             (ascii ''content'', VStr (ascii
                ''<p>Pastels bring calm to complex financial interfaces...</p>'')),
             (ascii ''author'', VStr (ascii ''Team'')),
             (ascii ''tags'', VList [VStr (ascii ''design''), VStr (ascii ''ux'')]),
             (ascii ''published_at'', VTime (clk 0)),
             (ascii ''created_at'', VTime (clk 3)),
             (ascii ''updated_at'', VTime (clk 3)),
             (ascii ''_id'', VOid (next_oid s))],
            [(ascii ''title'', VStr (ascii ''Pricing Psychology for SaaS'')),
             (ascii ''slug'', VStr (ascii ''pricing-psychology-saas'')),
             (ascii ''excerpt'', VStr (ascii
                ''Anchoring, decoys and how to present value tiers.'')),
             (ascii ''content'', VStr (ascii
                ''<p>Great pricing pages tell a story of value...</p>'')),
             (ascii ''author'', VStr (ascii ''Team'')),
             (ascii ''tags'', VList [VStr (ascii ''growth''), VStr (ascii ''pricing'')]),
             (ascii ''published_at'', VTime (clk 1)),
             (ascii ''created_at'', VTime (clk 4)),
             (ascii ''updated_at'', VTime (clk 4)),
             (ascii ''_id'', VOid (next_oid s + 1))],
            [(ascii ''title'', VStr (ascii ''Frictionless Onboarding'')),
             (ascii ''slug'', VStr (ascii ''frictionless-onboarding'')),
             (ascii ''excerpt'', VStr (ascii
                ''Best practices for sign-up and authentication flows.'')),
             (ascii ''content'', VStr (ascii
                ''<p>Every extra field reduces conversions...</p>'')),
             (ascii ''author'', VStr (ascii ''Team'')),
             (ascii ''tags'', VList [VStr (ascii ''product''), VStr (ascii ''auth'')]),
             (ascii ''published_at'', VTime (clk 2)),
             (ascii ''created_at'', VTime (clk 5)),
             (ascii ''updated_at'', VTime (clk 5)),
             (ascii ''_id'', VOid (next_oid s + 2))]]
      \<and> distinct (map (\<lambda>d. get d (ascii ''slug'')) (collections s1 (ascii ''blogpost'')))
      \<and> (\<forall>c. c \<noteq> ascii ''blogpost'' \<longrightarrow> collections s1 c = collections s c)
      \<and> (\<forall>clk' limit'. snd (list_blog L clk' (Some s1) limit') = Some s1)
      \<and> (\<forall>clk' limit'. 3 \<le> limit' \<longrightarrow>
            fst (list_blog L clk' (Some s1) limit') = fst (list_blog L clk (Some s) limit))"
proof -
  define s1 where "s1 = s\<lparr>collections := (collections s)
                 (ascii ''blogpost'' :=
                    [stamp (clk 3) (next_oid s) (samples clk ! 0),
                     stamp (clk 4) (next_oid s + 1) (samples clk ! 1),
                     stamp (clk 5) (next_oid s + 2) (samples clk ! 2)]),
              next_oid := next_oid s + 3\<rparr>"
  have coll: "collections s1 (ascii ''blogpost'') =
           [[(ascii ''title'', VStr (ascii ''Designing With Pastels: A Gentle UI Aesthetic'')),
             (ascii ''slug'', VStr (ascii ''designing-with-pastels'')),
             (ascii ''excerpt'', VStr (ascii
                ''How soft color palettes can increase trust and readability in fintech apps.'')),
             (ascii ''content'', VStr (ascii
                ''<p>Pastels bring calm to complex financial interfaces...</p>'')),
             (ascii ''author'', VStr (ascii ''Team'')),
             (ascii ''tags'', VList [VStr (ascii ''design''), VStr (ascii ''ux'')]),
             (ascii ''published_at'', VTime (clk 0)),
             (ascii ''created_at'', VTime (clk 3)),
             (ascii ''updated_at'', VTime (clk 3)),
             (ascii ''_id'', VOid (next_oid s))],
            [(ascii ''title'', VStr (ascii ''Pricing Psychology for SaaS'')),
             (ascii ''slug'', VStr (ascii ''pricing-psychology-saas'')),
             (ascii ''excerpt'', VStr (ascii
                ''Anchoring, decoys and how to present value tiers.'')),
             (ascii ''content'', VStr (ascii
                ''<p>Great pricing pages tell a story of value...</p>'')),
             (ascii ''author'', VStr (ascii ''Team'')),
             (ascii ''tags'', VList [VStr (ascii ''growth''), VStr (ascii ''pricing'')]),
             (ascii ''published_at'', VTime (clk 1)),
             (ascii ''created_at'', VTime (clk 4)),
             (ascii ''updated_at'', VTime (clk 4)),
             (ascii ''_id'', VOid (next_oid s + 1))],
            [(ascii ''title'', VStr (ascii ''Frictionless Onboarding'')),
             (ascii ''slug'', VStr (ascii ''frictionless-onboarding'')),
             (ascii ''excerpt'', VStr (ascii
                ''Best practices for sign-up and authentication flows.'')),
             (ascii ''content'', VStr (ascii
                ''<p>Every extra field reduces conversions...</p>'')),
             (ascii ''author'', VStr (ascii ''Team'')),
             (ascii ''tags'', VList [VStr (ascii ''product''), VStr (ascii ''auth'')]),
             (ascii ''published_at'', VTime (clk 2)),
             (ascii ''created_at'', VTime (clk 5)),
             (ascii ''updated_at'', VTime (clk 5)),
             (ascii ''_id'', VOid (next_oid s + 2))]]"
    by (simp add: s1_def samples_def stamp_def)
  have resp: "[(ascii ''posts'',
         VList (map VDict (map list_blog_item (collections s1 (ascii ''blogpost'')))))] =
           [(ascii ''posts'', VList
           [VDict [(ascii ''title'', VStr (ascii ''Designing With Pastels: A Gentle UI Aesthetic'')),
                   (ascii ''slug'', VStr (ascii ''designing-with-pastels'')),
                   (ascii ''excerpt'', VStr (ascii
                      ''How soft color palettes can increase trust and readability in fintech apps.'')),
                   (ascii ''author'', VStr (ascii ''Team'')),
                   (ascii ''published_at'', VTime (clk 0)),
                   (ascii ''tags'', VList [VStr (ascii ''design''), VStr (ascii ''ux'')])],
            VDict [(ascii ''title'', VStr (ascii ''Pricing Psychology for SaaS'')),
                   (ascii ''slug'', VStr (ascii ''pricing-psychology-saas'')),
                   (ascii ''excerpt'', VStr (ascii
                      ''Anchoring, decoys and how to present value tiers.'')),
                   (ascii ''author'', VStr (ascii ''Team'')),
                   (ascii ''published_at'', VTime (clk 1)),
                   (ascii ''tags'', VList [VStr (ascii ''growth''), VStr (ascii ''pricing'')])],
            VDict [(ascii ''title'', VStr (ascii ''Frictionless Onboarding'')),
                   (ascii ''slug'', VStr (ascii ''frictionless-onboarding'')),
                   (ascii ''excerpt'', VStr (ascii
                      ''Best practices for sign-up and authentication flows.'')),
                   (ascii ''author'', VStr (ascii ''Team'')),
                   (ascii ''published_at'', VTime (clk 2)),
                   (ascii ''tags'', VList [VStr (ascii ''product''), VStr (ascii ''auth'')])]])]"
    unfolding coll by (simp add: list_blog_item_def get_def get_default_def)
  have ens: "ensure_sample_blog_posts L clk (Some s) = (Inr (), Some s1)"
    unfolding s1_def using assms(1) by (rule ensure_on_empty)
  have docs: "get_documents (Some s1) (ascii ''blogpost'') [] l = collections s1 (ascii ''blogpost'')"
    if "3 \<le> l" for l :: int
    using that by (simp add: get_documents_positive coll)
  have first: "list_blog L clk (Some s) limit =
           (Inr [(ascii ''posts'', VList
           [VDict [(ascii ''title'', VStr (ascii ''Designing With Pastels: A Gentle UI Aesthetic'')),
                   (ascii ''slug'', VStr (ascii ''designing-with-pastels'')),
                   (ascii ''excerpt'', VStr (ascii
                      ''How soft color palettes can increase trust and readability in fintech apps.'')),
                   (ascii ''author'', VStr (ascii ''Team'')),
                   (ascii ''published_at'', VTime (clk 0)),
                   (ascii ''tags'', VList [VStr (ascii ''design''), VStr (ascii ''ux'')])],
            VDict [(ascii ''title'', VStr (ascii ''Pricing Psychology for SaaS'')),
                   (ascii ''slug'', VStr (ascii ''pricing-psychology-saas'')),
                   (ascii ''excerpt'', VStr (ascii
                      ''Anchoring, decoys and how to present value tiers.'')),
                   (ascii ''author'', VStr (ascii ''Team'')),
                   (ascii ''published_at'', VTime (clk 1)),
                   (ascii ''tags'', VList [VStr (ascii ''growth''), VStr (ascii ''pricing'')])],
            VDict [(ascii ''title'', VStr (ascii ''Frictionless Onboarding'')),
                   (ascii ''slug'', VStr (ascii ''frictionless-onboarding'')),
                   (ascii ''excerpt'', VStr (ascii
                      ''Best practices for sign-up and authentication flows.'')),
                   (ascii ''author'', VStr (ascii ''Team'')),
                   (ascii ''published_at'', VTime (clk 2)),
                   (ascii ''tags'', VList [VStr (ascii ''product''), VStr (ascii ''auth'')])]])],
            Some s1)"
    by (simp only: list_blog_eq ens snd_conv docs [OF assms(2)] resp)
  have again: "ensure_sample_blog_posts L clk' (Some s1) = (Inr (), Some s1)" for clk'
    by (rule ensure_on_nonempty) (simp add: coll)
  have dist: "distinct (map (\<lambda>d. get d (ascii ''slug'')) (collections s1 (ascii ''blogpost'')))"
    unfolding coll by (simp add: get_def)
  have others: "\<forall>c. c \<noteq> ascii ''blogpost'' \<longrightarrow> collections s1 c = collections s c"
    by (simp add: s1_def)
  have unchanged: "\<forall>clk' limit'. snd (list_blog L clk' (Some s1) limit') = Some s1"
    by (simp add: list_blog_eq again)
  have same: "\<forall>clk' limit'. 3 \<le> limit' \<longrightarrow>
            fst (list_blog L clk' (Some s1) limit') = fst (list_blog L clk (Some s) limit)"
  proof (intro allI impI)
    fix clk' :: "nat \<Rightarrow> nat" and limit' :: int
    assume "3 \<le> limit'"
    note d = docs [OF this]
    show "fst (list_blog L clk' (Some s1) limit') = fst (list_blog L clk (Some s) limit)"
      by (simp only: list_blog_eq again ens snd_conv fst_conv d docs [OF assms(2)])
  qed
  show ?thesis
    by (intro exI [of _ s1] conjI first coll dist others unchanged same)
qed

theorem list_blog_seeds_once_witness:
  "fst (list_blog lib0 id (Some empty_db) 6) =
     Inr [(ascii ''posts'', VList
     [VDict [(ascii ''title'', VStr (ascii ''Designing With Pastels: A Gentle UI Aesthetic'')),
             (ascii ''slug'', VStr (ascii ''designing-with-pastels'')),
             (ascii ''excerpt'', VStr (ascii
                ''How soft color palettes can increase trust and readability in fintech apps.'')),
             (ascii ''author'', VStr (ascii ''Team'')),
             (ascii ''published_at'', VTime (0)),
             (ascii ''tags'', VList [VStr (ascii ''design''), VStr (ascii ''ux'')])],
      VDict [(ascii ''title'', VStr (ascii ''Pricing Psychology for SaaS'')),
             (ascii ''slug'', VStr (ascii ''pricing-psychology-saas'')),
             (ascii ''excerpt'', VStr (ascii
                ''Anchoring, decoys and how to present value tiers.'')),
             (ascii ''author'', VStr (ascii ''Team'')),
             (ascii ''published_at'', VTime (1)),
             (ascii ''tags'', VList [VStr (ascii ''growth''), VStr (ascii ''pricing'')])],
      VDict [(ascii ''title'', VStr (ascii ''Frictionless Onboarding'')),
             (ascii ''slug'', VStr (ascii ''frictionless-onboarding'')),
             (ascii ''excerpt'', VStr (ascii
                ''Best practices for sign-up and authentication flows.'')),
             (ascii ''author'', VStr (ascii ''Team'')),
             (ascii ''published_at'', VTime (2)),
             (ascii ''tags'', VList [VStr (ascii ''product''), VStr (ascii ''auth'')])]])]
   \<and> snd (list_blog lib0 id (snd (list_blog lib0 id (Some empty_db) 6)) 6) =
       snd (list_blog lib0 id (Some empty_db) 6)
   \<and> fst (list_blog lib0 id (snd (list_blog lib0 id (Some empty_db) 6)) 6) =
       fst (list_blog lib0 id (Some empty_db) 6)"
proof -
  have e: "collections empty_db (ascii ''blogpost'') = []"
    by (simp add: empty_db_def)
  have l: "(3::int) \<le> 6" by simp
  from list_blog_seeds_once [OF e l, of lib0 id] obtain s1 where
    r1: "list_blog lib0 id (Some empty_db) 6 =
         (Inr [(ascii ''posts'', VList
         [VDict [(ascii ''title'', VStr (ascii ''Designing With Pastels: A Gentle UI Aesthetic'')),
                 (ascii ''slug'', VStr (ascii ''designing-with-pastels'')),
                 (ascii ''excerpt'', VStr (ascii
                    ''How soft color palettes can increase trust and readability in fintech apps.'')),
                 (ascii ''author'', VStr (ascii ''Team'')),
                 (ascii ''published_at'', VTime (0)),
                 (ascii ''tags'', VList [VStr (ascii ''design''), VStr (ascii ''ux'')])],
          VDict [(ascii ''title'', VStr (ascii ''Pricing Psychology for SaaS'')),
                 (ascii ''slug'', VStr (ascii ''pricing-psychology-saas'')),
                 (ascii ''excerpt'', VStr (ascii
                    ''Anchoring, decoys and how to present value tiers.'')),
                 (ascii ''author'', VStr (ascii ''Team'')),
                 (ascii ''published_at'', VTime (1)),
                 (ascii ''tags'', VList [VStr (ascii ''growth''), VStr (ascii ''pricing'')])],
          VDict [(ascii ''title'', VStr (ascii ''Frictionless Onboarding'')),
                 (ascii ''slug'', VStr (ascii ''frictionless-onboarding'')),
                 (ascii ''excerpt'', VStr (ascii
                    ''Best practices for sign-up and authentication flows.'')),
                 (ascii ''author'', VStr (ascii ''Team'')),
                 (ascii ''published_at'', VTime (2)),
                 (ascii ''tags'', VList [VStr (ascii ''product''), VStr (ascii ''auth'')])]])], Some s1)"
    and r3: "\<forall>clk' limit'. snd (list_blog lib0 clk' (Some s1) limit') = Some s1"
    and r4: "\<forall>clk' limit'. 3 \<le> limit' \<longrightarrow> fst (list_blog lib0 clk' (Some s1) limit') =
         fst (list_blog lib0 id (Some empty_db) 6)"
    unfolding id_apply by (elim exE conjE)
  from r3 [THEN spec, THEN spec]
  have u: "snd (list_blog lib0 id (Some s1) 6) = Some s1" .
  from r4 [THEN spec, THEN spec, THEN mp, OF l]
  have v: "fst (list_blog lib0 id (Some s1) 6) = fst (list_blog lib0 id (Some empty_db) 6)" .
  have w: "snd (list_blog lib0 id (Some empty_db) 6) = Some s1"
    by (simp add: r1)
  show ?thesis
    unfolding w u v by (simp add: r1)
qed

text \<open>
  Claim C5, as amended (blog list shape and limit): for every positive limit,
  \<open>list_blog\<close> succeeds and returns one item for each of the first \<open>limit\<close> documents of
  the \<open>blogpost\<close> collection, hence at most \<open>limit\<close> posts. Every item has exactly the
  keys \<open>title\<close>, \<open>slug\<close>, \<open>excerpt\<close>, \<open>author\<close>, \<open>published_at\<close> and \<open>tags\<close>, with the
  values of the stored document, and never \<open>content\<close>; its author is \<open>"Team"\<close> when the
  stored document has no author.
\<close>

theorem list_blog_shape_and_limit:
  assumes "0 < limit"
  shows "\<exists>items docs.
       fst (list_blog L clk db limit) = Inr [(ascii ''posts'', VList (map VDict items))]
     \<and> docs = take (nat limit)
           (case snd (list_blog L clk db limit) of
              None \<Rightarrow> []
            | Some s' \<Rightarrow> collections s' (ascii ''blogpost''))
     \<and> length items = length docs
     \<and> int (length items) \<le> limit
     \<and> (\<forall>i < length items.
           map fst (items ! i) =
             [ascii ''title'', ascii ''slug'', ascii ''excerpt'', ascii ''author'',
              ascii ''published_at'', ascii ''tags'']
         \<and> map_of (items ! i) (ascii ''content'') = None
         \<and> map_of (items ! i) (ascii ''title'') = Some (get (docs ! i) (ascii ''title''))
         \<and> map_of (items ! i) (ascii ''slug'') = Some (get (docs ! i) (ascii ''slug''))
         \<and> map_of (items ! i) (ascii ''excerpt'') = Some (get (docs ! i) (ascii ''excerpt''))
         \<and> map_of (items ! i) (ascii ''author'') =
             Some (case map_of (docs ! i) (ascii ''author'') of
                     None \<Rightarrow> VStr (ascii ''Team'')
                   | Some author \<Rightarrow> author)
         \<and> map_of (items ! i) (ascii ''published_at'') =
             Some (get (docs ! i) (ascii ''published_at''))
         \<and> map_of (items ! i) (ascii ''tags'') =
             Some (case map_of (docs ! i) (ascii ''tags'') of
                     None \<Rightarrow> VList []
                   | Some tags \<Rightarrow> tags))"
proof -
  define db' where "db' = snd (ensure_sample_blog_posts L clk db)"
  define docs where "docs = take (nat limit)
      (case db' of None \<Rightarrow> [] | Some s' \<Rightarrow> collections s' (ascii ''blogpost''))"
  have g: "get_documents db' (ascii ''blogpost'') [] limit = docs"
    using assms by (cases db') (simp_all add: docs_def get_documents_def cursor_limit_def)
  have r: "list_blog L clk db limit =
      (Inr [(ascii ''posts'', VList (map VDict (map list_blog_item docs)))], db')"
    by (simp only: list_blog_eq db'_def [symmetric] g)
  have 1: "fst (list_blog L clk db limit) =
      Inr [(ascii ''posts'', VList (map VDict (map list_blog_item docs)))]"
    by (simp add: r)
  have 2: "docs = take (nat limit)
           (case snd (list_blog L clk db limit) of
              None \<Rightarrow> []
            | Some s' \<Rightarrow> collections s' (ascii ''blogpost''))"
    by (simp add: r docs_def)
  have 3: "length (map list_blog_item docs) = length docs"
    by simp
  have 4: "int (length (map list_blog_item docs)) \<le> limit"
    using assms by (simp add: docs_def)
  have 5: "\<forall>i < length (map list_blog_item docs).
           map fst (map list_blog_item docs ! i) =
             [ascii ''title'', ascii ''slug'', ascii ''excerpt'', ascii ''author'',
              ascii ''published_at'', ascii ''tags'']
         \<and> map_of (map list_blog_item docs ! i) (ascii ''content'') = None
         \<and> map_of (map list_blog_item docs ! i) (ascii ''title'') =
             Some (get (docs ! i) (ascii ''title''))
         \<and> map_of (map list_blog_item docs ! i) (ascii ''slug'') =
             Some (get (docs ! i) (ascii ''slug''))
         \<and> map_of (map list_blog_item docs ! i) (ascii ''excerpt'') =
             Some (get (docs ! i) (ascii ''excerpt''))
         \<and> map_of (map list_blog_item docs ! i) (ascii ''author'') =
             Some (case map_of (docs ! i) (ascii ''author'') of
                     None \<Rightarrow> VStr (ascii ''Team'')
                   | Some author \<Rightarrow> author)
         \<and> map_of (map list_blog_item docs ! i) (ascii ''published_at'') =
             Some (get (docs ! i) (ascii ''published_at''))
         \<and> map_of (map list_blog_item docs ! i) (ascii ''tags'') =
             Some (case map_of (docs ! i) (ascii ''tags'') of
                     None \<Rightarrow> VList []
                   | Some tags \<Rightarrow> tags)"
    by (simp add: list_blog_item_def get_default_def)
  show ?thesis
    by (intro exI [of _ "map list_blog_item docs"] exI [of _ docs] conjI 1 2 3 4 5)
qed

theorem list_blog_shape_and_limit_witness:
  "(0::int) < 1
   \<and> (\<exists>items.
        fst (list_blog lib0 id (Some notes_db) 1) =
          Inr [(ascii ''posts'', VList (map VDict items))]
      \<and> length items = 1
      \<and> map fst (items ! 0) =
          [ascii ''title'', ascii ''slug'', ascii ''excerpt'', ascii ''author'',
           ascii ''published_at'', ascii ''tags'']
      \<and> map_of (items ! 0) (ascii ''content'') = None
      \<and> map_of (items ! 0) (ascii ''title'') = Some (VStr (ascii ''A''))
      \<and> map_of (items ! 0) (ascii ''slug'') = Some (VStr (ascii ''a''))
      \<and> map_of (items ! 0) (ascii ''excerpt'') = Some (VStr (ascii ''first''))
      \<and> map_of (items ! 0) (ascii ''author'') = Some (VStr (ascii ''Team''))
      \<and> map_of (items ! 0) (ascii ''published_at'') = Some (VTime 1)
      \<and> map_of (items ! 0) (ascii ''tags'') = Some (VList [VStr (ascii ''x'')]))"
proof -
  have l: "(0::int) < 1" by simp
  have s: "snd (list_blog lib0 id (Some notes_db) 1) = Some notes_db"
    by (simp add: list_blog_eq ensure_on_nonempty notes_db_def)
  from list_blog_shape_and_limit [OF l, of lib0 id "Some notes_db"]
  obtain items docs where
    r: "fst (list_blog lib0 id (Some notes_db) 1) =
          Inr [(ascii ''posts'', VList (map VDict items))]"
    and d: "docs = take (nat 1)
           (case snd (list_blog lib0 id (Some notes_db) 1) of
              None \<Rightarrow> []
            | Some s' \<Rightarrow> collections s' (ascii ''blogpost''))"
    and n: "length items = length docs"
    and a: "\<forall>i < length items.
           map fst (items ! i) =
             [ascii ''title'', ascii ''slug'', ascii ''excerpt'', ascii ''author'',
              ascii ''published_at'', ascii ''tags'']
         \<and> map_of (items ! i) (ascii ''content'') = None
         \<and> map_of (items ! i) (ascii ''title'') = Some (get (docs ! i) (ascii ''title''))
         \<and> map_of (items ! i) (ascii ''slug'') = Some (get (docs ! i) (ascii ''slug''))
         \<and> map_of (items ! i) (ascii ''excerpt'') = Some (get (docs ! i) (ascii ''excerpt''))
         \<and> map_of (items ! i) (ascii ''author'') =
             Some (case map_of (docs ! i) (ascii ''author'') of
                     None \<Rightarrow> VStr (ascii ''Team'')
                   | Some author \<Rightarrow> author)
         \<and> map_of (items ! i) (ascii ''published_at'') =
             Some (get (docs ! i) (ascii ''published_at''))
         \<and> map_of (items ! i) (ascii ''tags'') =
             Some (case map_of (docs ! i) (ascii ''tags'') of
                     None \<Rightarrow> VList []
                   | Some tags \<Rightarrow> tags)"
    by (elim exE conjE)
  from d have docs: "docs = [note_a]"
    unfolding s by (simp add: notes_db_def)
  with n have n1: "length items = 1" by simp
  from a n1 have "map fst (items ! 0) =
             [ascii ''title'', ascii ''slug'', ascii ''excerpt'', ascii ''author'',
              ascii ''published_at'', ascii ''tags'']
         \<and> map_of (items ! 0) (ascii ''content'') = None
         \<and> map_of (items ! 0) (ascii ''title'') = Some (get (docs ! 0) (ascii ''title''))
         \<and> map_of (items ! 0) (ascii ''slug'') = Some (get (docs ! 0) (ascii ''slug''))
         \<and> map_of (items ! 0) (ascii ''excerpt'') = Some (get (docs ! 0) (ascii ''excerpt''))
         \<and> map_of (items ! 0) (ascii ''author'') =
             Some (case map_of (docs ! 0) (ascii ''author'') of
                     None \<Rightarrow> VStr (ascii ''Team'')
                   | Some author \<Rightarrow> author)
         \<and> map_of (items ! 0) (ascii ''published_at'') =
             Some (get (docs ! 0) (ascii ''published_at''))
         \<and> map_of (items ! 0) (ascii ''tags'') =
             Some (case map_of (docs ! 0) (ascii ''tags'') of
                     None \<Rightarrow> VList []
                   | Some tags \<Rightarrow> tags)"
    by simp
  then have b: "map fst (items ! 0) =
          [ascii ''title'', ascii ''slug'', ascii ''excerpt'', ascii ''author'',
           ascii ''published_at'', ascii ''tags'']
      \<and> map_of (items ! 0) (ascii ''content'') = None
      \<and> map_of (items ! 0) (ascii ''title'') = Some (VStr (ascii ''A''))
      \<and> map_of (items ! 0) (ascii ''slug'') = Some (VStr (ascii ''a''))
      \<and> map_of (items ! 0) (ascii ''excerpt'') = Some (VStr (ascii ''first''))
      \<and> map_of (items ! 0) (ascii ''author'') = Some (VStr (ascii ''Team''))
      \<and> map_of (items ! 0) (ascii ''published_at'') = Some (VTime 1)
      \<and> map_of (items ! 0) (ascii ''tags'') = Some (VList [VStr (ascii ''x'')])"
    by (simp add: docs note_a_def get_def)
  from l r n1 b show ?thesis
    by (intro conjI exI [of _ items]) simp_all
qed

text \<open>
  The claim as stated, for every integer limit, fails for a limit that is not positive:
  the handler passes any integer on. On a collection of two posts the limit 0 returns
  both, and the limit \<open>-1\<close> returns one; each time the posts are more than the limit.
\<close>

theorem list_blog_nonpositive_limit_counterexample:
  "list_blog lib0 id (Some notes_db) 0 =
     (Inr [(ascii ''posts'', VList
            [VDict [(ascii ''title'', VStr (ascii ''A'')),
                    (ascii ''slug'', VStr (ascii ''a'')),
                    (ascii ''excerpt'', VStr (ascii ''first'')),
                    (ascii ''author'', VStr (ascii ''Team'')),
                    (ascii ''published_at'', VTime 1),
                    (ascii ''tags'', VList [VStr (ascii ''x'')])],
             VDict [(ascii ''title'', VStr (ascii ''B'')),
                    (ascii ''slug'', VStr (ascii ''b'')),
                    (ascii ''excerpt'', VNone),
                    (ascii ''author'', VStr (ascii ''Bea'')),
                    (ascii ''published_at'', VNone),
                    (ascii ''tags'', VList [])]])],
      Some notes_db)
   \<and> \<not> (2::int) \<le> 0
   \<and> list_blog lib0 id (Some notes_db) (- 1) =
     (Inr [(ascii ''posts'', VList
            [VDict [(ascii ''title'', VStr (ascii ''A'')),
                    (ascii ''slug'', VStr (ascii ''a'')),
                    (ascii ''excerpt'', VStr (ascii ''first'')),
                    (ascii ''author'', VStr (ascii ''Team'')),
                    (ascii ''published_at'', VTime 1),
                    (ascii ''tags'', VList [VStr (ascii ''x'')])]])],
      Some notes_db)
   \<and> \<not> (1::int) \<le> - 1"
proof -
  have e: "snd (ensure_sample_blog_posts lib0 id (Some notes_db)) = Some notes_db"
    by (simp add: ensure_on_nonempty notes_db_def)
  have g: "get_documents (Some notes_db) (ascii ''blogpost'') [] 0 = [note_a, note_b]"
    "get_documents (Some notes_db) (ascii ''blogpost'') [] (- 1) = [note_a]"
    by (simp_all add: get_documents_def cursor_limit_def notes_db_def)
  have i: "list_blog_item note_a =
       [(ascii ''title'', VStr (ascii ''A'')),
        (ascii ''slug'', VStr (ascii ''a'')),
        (ascii ''excerpt'', VStr (ascii ''first'')),
        (ascii ''author'', VStr (ascii ''Team'')),
        (ascii ''published_at'', VTime 1),
        (ascii ''tags'', VList [VStr (ascii ''x'')])]"
    "list_blog_item note_b =
       [(ascii ''title'', VStr (ascii ''B'')),
        (ascii ''slug'', VStr (ascii ''b'')),
        (ascii ''excerpt'', VNone),
        (ascii ''author'', VStr (ascii ''Bea'')),
        (ascii ''published_at'', VNone),
        (ascii ''tags'', VList [])]"
    by (simp_all add: list_blog_item_def note_a_def note_b_def get_def get_default_def)
  show ?thesis
    by (simp add: list_blog_eq e g i)
qed

text \<open>
  Claim C6 (blog lookup by slug): \<open>get_blog\<close> raises
  \<open>HTTPException(404, "Post not found")\<close> when there is no database or no document of
  the \<open>blogpost\<close> collection has the slug of the path; otherwise it returns, for a
  stored document with exactly that slug, its title, slug, excerpt, content, author
  (\<open>"Team"\<close> when missing), publication time and tags.
\<close>

theorem get_blog_by_slug:
  "((db = None \<or> (\<exists>s. db = Some s \<and>
        (\<forall>d \<in> set (collections s (ascii ''blogpost'')). get d (ascii ''slug'') \<noteq> VStr slug)))
      \<longrightarrow> get_blog db slug = Inl (HTTPException 404 (ascii ''Post not found'')))
   \<and> (\<forall>s. db = Some s
          \<and> (\<exists>d \<in> set (collections s (ascii ''blogpost'')). get d (ascii ''slug'') = VStr slug)
      \<longrightarrow> (\<exists>d \<in> set (collections s (ascii ''blogpost'')).
             get d (ascii ''slug'') = VStr slug
           \<and> get_blog db slug =
               Inr [(ascii ''title'', get d (ascii ''title'')),
                    (ascii ''slug'', VStr slug),
                    (ascii ''excerpt'', get d (ascii ''excerpt'')),
                    (ascii ''content'', get d (ascii ''content'')),
                    (ascii ''author'', get_default d (ascii ''author'') (VStr (ascii ''Team''))),
                    (ascii ''published_at'', get d (ascii ''published_at'')),
                    (ascii ''tags'', get_default d (ascii ''tags'') (VList []))]))"
proof (intro conjI impI allI)
  assume "db = None \<or> (\<exists>s. db = Some s \<and>
        (\<forall>d \<in> set (collections s (ascii ''blogpost'')). get d (ascii ''slug'') \<noteq> VStr slug))"
  then show "get_blog db slug = Inl (HTTPException 404 (ascii ''Post not found''))"
  proof
    assume "db = None"
    then show ?thesis by (simp add: get_blog_def)
  next
    assume "\<exists>s. db = Some s \<and>
        (\<forall>d \<in> set (collections s (ascii ''blogpost'')). get d (ascii ''slug'') \<noteq> VStr slug)"
    then obtain s where s: "db = Some s"
      and "\<forall>d \<in> set (collections s (ascii ''blogpost'')). get d (ascii ''slug'') \<noteq> VStr slug"
      by blast
    then have "find_one s (ascii ''blogpost'') [(ascii ''slug'', VStr slug)] = None"
      by (simp add: find_one_None_iff)
    with s show ?thesis by (simp add: get_blog_def)
  qed
next
  fix s
  assume a: "db = Some s
      \<and> (\<exists>d \<in> set (collections s (ascii ''blogpost'')). get d (ascii ''slug'') = VStr slug)"
  then have "find_one s (ascii ''blogpost'') [(ascii ''slug'', VStr slug)] \<noteq> None"
    unfolding find_one_None_iff by simp
  then obtain d where f: "find_one s (ascii ''blogpost'') [(ascii ''slug'', VStr slug)] = Some d"
    by blast
  from find_one_SomeD [OF f]
  have m: "d \<in> set (collections s (ascii ''blogpost''))"
    and g: "map_of d (ascii ''slug'') = Some (VStr slug)"
    by simp_all
  from g have t: "truthy (Some d)" by (auto simp: truthy_def)
  from g have gs: "get d (ascii ''slug'') = VStr slug" by simp
  have "get_blog db slug =
               Inr [(ascii ''title'', get d (ascii ''title'')),
                    (ascii ''slug'', VStr slug),
                    (ascii ''excerpt'', get d (ascii ''excerpt'')),
                    (ascii ''content'', get d (ascii ''content'')),
                    (ascii ''author'', get_default d (ascii ''author'') (VStr (ascii ''Team''))),
                    (ascii ''published_at'', get d (ascii ''published_at'')),
                    (ascii ''tags'', get_default d (ascii ''tags'') (VList []))]"
    using a f t g by (simp add: get_blog_def get_def)
  with m gs show "\<exists>d \<in> set (collections s (ascii ''blogpost'')).
             get d (ascii ''slug'') = VStr slug
           \<and> get_blog db slug =
               Inr [(ascii ''title'', get d (ascii ''title'')),
                    (ascii ''slug'', VStr slug),
                    (ascii ''excerpt'', get d (ascii ''excerpt'')),
                    (ascii ''content'', get d (ascii ''content'')),
                    (ascii ''author'', get_default d (ascii ''author'') (VStr (ascii ''Team''))),
                    (ascii ''published_at'', get d (ascii ''published_at'')),
                    (ascii ''tags'', get_default d (ascii ''tags'') (VList []))]"
    by (intro bexI [of _ d] conjI)
qed

theorem get_blog_by_slug_witness:
  "get_blog None (ascii ''designing-with-pastels'') =
     Inl (HTTPException 404 (ascii ''Post not found''))
   \<and> get_blog (Some blog_db) (ascii ''no-such-post'') =
     Inl (HTTPException 404 (ascii ''Post not found''))
   \<and> get_blog (Some blog_db) (ascii ''designing-with-pastels'') =
     Inr [(ascii ''title'', VStr (ascii ''Designing With Pastels: A Gentle UI Aesthetic'')),
          (ascii ''slug'', VStr (ascii ''designing-with-pastels'')),
          (ascii ''excerpt'', VStr (ascii
             ''How soft color palettes can increase trust and readability in fintech apps.'')),
          (ascii ''content'', VStr (ascii
             ''<p>Pastels bring calm to complex financial interfaces...</p>'')),
          (ascii ''author'', VStr (ascii ''Team'')),
          (ascii ''published_at'', VTime 0),
          (ascii ''tags'', VList [VStr (ascii ''design''), VStr (ascii ''ux'')])]"
proof -
  have c: "collections blog_db (ascii ''blogpost'') = samples id"
    by (simp add: blog_db_def)
  have 1: "get_blog None (ascii ''designing-with-pastels'') =
     Inl (HTTPException 404 (ascii ''Post not found''))"
    by (rule get_blog_by_slug [THEN conjunct1, THEN mp]) simp
  have 2: "get_blog (Some blog_db) (ascii ''no-such-post'') =
     Inl (HTTPException 404 (ascii ''Post not found''))"
    by (rule get_blog_by_slug [THEN conjunct1, THEN mp]) (simp add: c samples_def)
  have "Some blog_db = Some blog_db \<and> (\<exists>d \<in> set (collections blog_db (ascii ''blogpost'')).
      get d (ascii ''slug'') = VStr (ascii ''designing-with-pastels''))"
    by (simp add: c samples_def)
  from get_blog_by_slug [THEN conjunct2, THEN spec, THEN mp, OF this]
  obtain d where d: "d \<in> set (samples id)"
    and g: "get d (ascii ''slug'') = VStr (ascii ''designing-with-pastels'')"
    and r: "get_blog (Some blog_db) (ascii ''designing-with-pastels'') =
               Inr [(ascii ''title'', get d (ascii ''title'')),
                    (ascii ''slug'', VStr (ascii ''designing-with-pastels'')),
                    (ascii ''excerpt'', get d (ascii ''excerpt'')),
                    (ascii ''content'', get d (ascii ''content'')),
                    (ascii ''author'', get_default d (ascii ''author'') (VStr (ascii ''Team''))),
                    (ascii ''published_at'', get d (ascii ''published_at'')),
                    (ascii ''tags'', get_default d (ascii ''tags'') (VList []))]"
    unfolding c by (elim bexE conjE)
  from d g have "d = samples id ! 0"
    by (auto simp: samples_def)
  then have 3: "get_blog (Some blog_db) (ascii ''designing-with-pastels'') =
     Inr [(ascii ''title'', VStr (ascii ''Designing With Pastels: A Gentle UI Aesthetic'')),
          (ascii ''slug'', VStr (ascii ''designing-with-pastels'')),
          (ascii ''excerpt'', VStr (ascii
             ''How soft color palettes can increase trust and readability in fintech apps.'')),
          (ascii ''content'', VStr (ascii
             ''<p>Pastels bring calm to complex financial interfaces...</p>'')),
          (ascii ''author'', VStr (ascii ''Team'')),
          (ascii ''published_at'', VTime 0),
          (ascii ''tags'', VList [VStr (ascii ''design''), VStr (ascii ''ux'')])]"
    unfolding r by (simp add: samples_def get_def get_default_def)
  from 1 2 3 show ?thesis by (intro conjI)
qed

section \<open>Contact\<close>

text \<open>
  Claim C8 (contact intake): on a live database \<open>contact\<close> appends one document to
  the \<open>contactmessage\<close> collection, with the payload's name, email and message and
  the status \<open>"new"\<close>, and returns the identifier of that document together with the
  status \<open>"received"\<close>, which is not the stored status.
\<close>

theorem contact_stores_new:
  "contact L now (Some s) p =
     (Inr [(ascii ''id'', VStr (str L (VOid (next_oid s)))),
           (ascii ''status'', VStr (ascii ''received''))],
      Some (s\<lparr>collections := (collections s)
                 (ascii ''contactmessage'' := collections s (ascii ''contactmessage'') @
                    [[(ascii ''name'', VStr (contact_name p)),
                      (ascii ''email'', VStr (contact_email p)),
                      (ascii ''message'', VStr (contact_message p)),
                      (ascii ''status'', VStr (ascii ''new'')),
                      (ascii ''created_at'', VTime now),
                      (ascii ''updated_at'', VTime now),
                      (ascii ''_id'', VOid (next_oid s))]]),
              next_oid := Suc (next_oid s)\<rparr>))
   \<and> VStr (ascii ''received'') \<noteq> VStr (ascii ''new'')"
  by (simp add: contact_def create_document_Some stamp_def)

section \<open>The diagnostic endpoint\<close>

text \<open>
  Claim C7 (diagnostic endpoint total): \<open>test_database\<close> returns its response for every
  state of the database: without a database, with a handle that works, and with a handle
  on which any of the three introspection calls raises. When \<open>list_collection_names\<close>
  raises, the \<open>database\<close> field of the response is the warning sign, the text
  \<open>" Connected but Error: "\<close> and the first 80 characters of the exception's message;
  when \<open>hasattr\<close> or \<open>db.name\<close> raises, it is the cross mark, \<open>" Error: "\<close> and the first
  80 characters of the message.
\<close>

theorem test_database_never_raises:
  "(\<exists>r. test_database url db = Inr r)
   \<and> (\<forall>h m. db = Some h \<and> list_collection_names h = Inl (Exception m)
          \<and> (hasattr_name h = Inr False \<or> (hasattr_name h = Inr True \<and> (\<exists>v. name_attr h = Inr v)))
        \<longrightarrow> (\<exists>r. test_database url db = Inr r
              \<and> get r (ascii ''database'') =
                  VStr (warning_sign @ ascii '' Connected but Error: '' @ take 80 m)))
   \<and> (\<forall>h m. db = Some h
          \<and> (hasattr_name h = Inl (Exception m)
              \<or> (hasattr_name h = Inr True \<and> name_attr h = Inl (Exception m)))
        \<longrightarrow> (\<exists>r. test_database url db = Inr r
              \<and> get r (ascii ''database'') = VStr (cross_mark @ ascii '' Error: '' @ take 80 m)))"
proof (intro conjI allI impI)
  show "\<exists>r. test_database url db = Inr r"
    by (simp add: test_database_def test_database_inner_def stmt_defs
        split: option.splits sum.splits bool.splits)
next
  fix h m
  assume "db = Some h \<and> list_collection_names h = Inl (Exception m)
          \<and> (hasattr_name h = Inr False \<or> (hasattr_name h = Inr True \<and> (\<exists>v. name_attr h = Inr v)))"
  then show "\<exists>r. test_database url db = Inr r
              \<and> get r (ascii ''database'') =
                  VStr (warning_sign @ ascii '' Connected but Error: '' @ take 80 m)"
    by (auto simp: test_database_def test_database_inner_def stmt_defs get_def update_conv')
next
  fix h m
  assume "db = Some h
          \<and> (hasattr_name h = Inl (Exception m)
              \<or> (hasattr_name h = Inr True \<and> name_attr h = Inl (Exception m)))"
  then show "\<exists>r. test_database url db = Inr r
              \<and> get r (ascii ''database'') = VStr (cross_mark @ ascii '' Error: '' @ take 80 m)"
    by (auto simp: test_database_def test_database_inner_def stmt_defs get_def update_conv')
qed

theorem test_database_never_raises_witness:
  "(\<exists>r. test_database None None = Inr r)
   \<and> (\<exists>r. test_database (Some (ascii ''mongodb://db'')) (Some failing_handle) = Inr r
         \<and> get r (ascii ''database'') =
             VStr (warning_sign @ ascii '' Connected but Error: '' @ replicate 80 120))
   \<and> (\<exists>r. test_database None (Some broken_handle) = Inr r
         \<and> get r (ascii ''database'') = VStr (cross_mark @ ascii '' Error: '' @ replicate 80 121))"
proof -
  have a: "\<exists>r. test_database None None = Inr r"
    by (rule test_database_never_raises [THEN conjunct1])
  have p: "Some failing_handle = Some failing_handle
      \<and> list_collection_names failing_handle = Inl (Exception (replicate 100 120))
      \<and> (hasattr_name failing_handle = Inr False
          \<or> (hasattr_name failing_handle = Inr True \<and> (\<exists>v. name_attr failing_handle = Inr v)))"
    by (simp add: failing_handle_def)
  have b: "\<exists>r. test_database (Some (ascii ''mongodb://db'')) (Some failing_handle) = Inr r
         \<and> get r (ascii ''database'') =
             VStr (warning_sign @ ascii '' Connected but Error: '' @ take 80 (replicate 100 120))"
    by (rule test_database_never_raises
        [THEN conjunct2, THEN conjunct1, THEN spec, THEN spec, THEN mp, OF p])
  have q: "Some broken_handle = Some broken_handle
      \<and> (hasattr_name broken_handle = Inl (Exception (replicate 100 121))
          \<or> (hasattr_name broken_handle = Inr True
              \<and> name_attr broken_handle = Inl (Exception (replicate 100 121))))"
    by (simp add: broken_handle_def)
  have c: "\<exists>r. test_database None (Some broken_handle) = Inr r
         \<and> get r (ascii ''database'') =
             VStr (cross_mark @ ascii '' Error: '' @ take 80 (replicate 100 121))"
    by (rule test_database_never_raises
        [THEN conjunct2, THEN conjunct2, THEN spec, THEN spec, THEN mp, OF q])
  have t: "take 80 (replicate 100 (120::nat)) = replicate 80 120"
    "take 80 (replicate 100 (121::nat)) = replicate 80 121"
    by simp_all
  from a b c show ?thesis unfolding t by (intro conjI)
qed

end
